theory Spec2Isabelle
  imports
    Complex_Main
    "HOL-Library.Char_ord"
    "HOL-Library.List_Lexorder"
    "HOL-Library.Product_Lexorder"
    "HOL-Library.Multiset"
begin

text \<open>
  A model of the sales pipeline of the repository: the loader that walks the data
  directory and ingests one CSV file per store, cash register and day into PostgreSQL
  (\<open>loader.py\<close>, \<open>simple_database.py\<close>), and the generator that writes such files
  (\<open>generate_sales.py\<close>). The file system, the database server, the clock and the random
  number generator are inputs of the model: what they hold and which of their calls fail
  is given to each function, and the function returns the state it leaves behind. An
  exception is a value: \<open>None\<close> or \<open>Inl\<close>. The first part gives the definitions, in the
  order of the sources; the second part states and proves the properties.
\<close>

section \<open>Strings, paths and calendar dates\<close>

text \<open>
  Python strings are modelled as \<^typ>\<open>string\<close>, compared character by character
  (\<open>List_Lexorder\<close> over \<open>Char_ord\<close>), which is the order Python's \<open>str\<close> comparison and
  \<open>list.sort\<close> use. The model's characters are bytes: the digit class \<open>\d\<close> of the
  source's regular expressions is taken over ASCII digits.
\<close>

definition is_digit :: "char \<Rightarrow> bool" where
  "is_digit c = (c \<in> set ''0123456789'')"

definition digit_val :: "char \<Rightarrow> nat" where
  "digit_val c = of_char c - 48"

text \<open>\<open>int(s)\<close> on a run of decimal digits.\<close>

definition int_of_digits :: "string \<Rightarrow> nat" where
  "int_of_digits s = foldl (\<lambda>a c. 10 * a + digit_val c) 0 s"

text \<open>
  A \<open>pathlib.Path\<close> is the list of its components. \<open>Path.name\<close> is the last
  component, \<open>Path.parent.name\<close> the one before it (the empty string when there is none).
\<close>

type_synonym path = "string list"

definition name_of :: "path \<Rightarrow> string" where
  "name_of p = (if p = [] then [] else last p)"

definition parent_name :: "path \<Rightarrow> string" where
  "parent_name p = name_of (butlast p)"

text \<open>
  \<open>Path.suffix\<close>: the text from the last dot of the name on, when that dot is neither
  the first nor the last character of the name.
\<close>

definition suffix_of :: "path \<Rightarrow> string" where
  "suffix_of p =
     (let nm = name_of p;
          after = takeWhile (\<lambda>c. c \<noteq> CHR ''.'') (rev nm)
      in if length after = length nm then []
         else (let i = length nm - length after - 1
               in if 0 < i \<and> i < length nm - 1 then drop i nm else []))"

definition lower_char :: "char \<Rightarrow> char" where
  "lower_char c = (if CHR ''A'' \<le> c \<and> c \<le> CHR ''Z'' then char_of (of_char c + (32::nat)) else c)"

definition lower :: "string \<Rightarrow> string" where
  "lower s = map lower_char s"

text \<open>
  \<open>re.match(r'(\d+)_(\d+)\.csv$', filename.name)\<close>: a run of digits, an underscore, a
  run of digits, the text \<open>.csv\<close>, and then the end of the name (Python's \<open>$\<close> also
  matches before one final newline).
\<close>

definition extract_store_cash_from_filename :: "path \<Rightarrow> (nat \<times> nat) option" where
  "extract_store_cash_from_filename filename =
     (let nm = name_of filename;
          g1 = takeWhile is_digit nm;
          r1 = dropWhile is_digit nm
      in if g1 = [] then None
         else (case r1 of
                 [] \<Rightarrow> None
               | c # r2 \<Rightarrow>
                   if c \<noteq> CHR ''_'' then None
                   else (let g2 = takeWhile is_digit r2;
                             r3 = dropWhile is_digit r2
                         in if g2 = [] then None
                            else if r3 = ''.csv'' \<or> r3 = ''.csv'' @ [CHR 0x0A]
                            then Some (int_of_digits g1, int_of_digits g2)
                            else None)))"

subsection \<open>Calendar dates and \<open>datetime.strptime(s, "%Y-%m-%d")\<close>\<close>

record date =
  year :: nat
  month :: nat
  day :: nat

definition is_leap :: "nat \<Rightarrow> bool" where
  "is_leap y = (y mod 4 = 0 \<and> (y mod 100 \<noteq> 0 \<or> y mod 400 = 0))"

definition days_in_month :: "nat \<Rightarrow> nat \<Rightarrow> nat" where
  "days_in_month y m =
     (if m = 2 then (if is_leap y then 29 else 28)
      else if m = 4 \<or> m = 6 \<or> m = 9 \<or> m = 11 then 30 else 31)"

text \<open>The check of the \<open>datetime.date\<close> constructor (\<open>MINYEAR = 1\<close>, \<open>MAXYEAR = 9999\<close>).\<close>

definition valid_date :: "nat \<Rightarrow> nat \<Rightarrow> nat \<Rightarrow> bool" where
  "valid_date y m d =
     (1 \<le> y \<and> y \<le> 9999 \<and> 1 \<le> m \<and> m \<le> 12 \<and> 1 \<le> d \<and> d \<le> days_in_month y m)"

text \<open>
  \<open>strptime\<close> turns the format into a regular expression and matches it at the start of
  the text: \<open>%Y\<close> is \<open>\d\d\d\d\<close>, \<open>%m\<close> is \<open>1[0-2]|0[1-9]|[1-9]\<close> and \<open>%d\<close> is
  \<open>3[0-1]|[1-2]\d|0[1-9]|[1-9]| [1-9]\<close>. Each function below lists the ways its
  directive can match a prefix, in the order the alternatives are tried, with the text
  that is left.
\<close>

definition match_Y :: "string \<Rightarrow> (nat \<times> string) list" where
  "match_Y s =
     (if 4 \<le> length s \<and> list_all is_digit (take 4 s)
      then [(int_of_digits (take 4 s), drop 4 s)] else [])"

definition match_m :: "string \<Rightarrow> (nat \<times> string) list" where
  "match_m s =
     (if 2 \<le> length s \<and> s ! 0 = CHR ''1'' \<and> s ! 1 \<in> set ''012''
      then [(10 + digit_val (s ! 1), drop 2 s)] else []) @
     (if 2 \<le> length s \<and> s ! 0 = CHR ''0'' \<and> s ! 1 \<in> set ''123456789''
      then [(digit_val (s ! 1), drop 2 s)] else []) @
     (if 1 \<le> length s \<and> s ! 0 \<in> set ''123456789''
      then [(digit_val (s ! 0), drop 1 s)] else [])"

definition match_d :: "string \<Rightarrow> (nat \<times> string) list" where
  "match_d s =
     (if 2 \<le> length s \<and> s ! 0 = CHR ''3'' \<and> s ! 1 \<in> set ''01''
      then [(30 + digit_val (s ! 1), drop 2 s)] else []) @
     (if 2 \<le> length s \<and> s ! 0 \<in> set ''12'' \<and> is_digit (s ! 1)
      then [(10 * digit_val (s ! 0) + digit_val (s ! 1), drop 2 s)] else []) @
     (if 2 \<le> length s \<and> s ! 0 = CHR ''0'' \<and> s ! 1 \<in> set ''123456789''
      then [(digit_val (s ! 1), drop 2 s)] else []) @
     (if 1 \<le> length s \<and> s ! 0 \<in> set ''123456789''
      then [(digit_val (s ! 0), drop 1 s)] else []) @
     (if 2 \<le> length s \<and> s ! 0 = CHR '' '' \<and> s ! 1 \<in> set ''123456789''
      then [(digit_val (s ! 1), drop 2 s)] else [])"

text \<open>A literal \<open>-\<close> of the format.\<close>

definition match_dash :: "string \<Rightarrow> string list" where
  "match_dash s = (case s of [] \<Rightarrow> [] | c # r \<Rightarrow> if c = CHR ''-'' then [r] else [])"

text \<open>
  All matches of the whole expression against a prefix of the text, in the order a
  backtracking matcher finds them; \<open>re.match\<close> returns the first.
\<close>

definition regex_ymd :: "string \<Rightarrow> ((nat \<times> nat \<times> nat) \<times> string) list" where
  "regex_ymd s =
     concat (map (\<lambda>(y, r1).
       concat (map (\<lambda>r2.
         concat (map (\<lambda>(m, r3).
           concat (map (\<lambda>r4.
             map (\<lambda>(d, r5). ((y, m, d), r5)) (match_d r4))
             (match_dash r3)))
           (match_m r2)))
         (match_dash r1)))
       (match_Y s))"

text \<open>
  \<open>datetime.strptime(s, "%Y-%m-%d")\<close>: \<open>None\<close> stands for \<open>ValueError\<close> (no match,
  unconverted text after the match, or a day the month does not have).
\<close>

definition strptime_ymd :: "string \<Rightarrow> date option" where
  "strptime_ymd s =
     (case regex_ymd s of
        [] \<Rightarrow> None
      | ((y, m, d), rest) # _ \<Rightarrow>
          if rest \<noteq> [] then None
          else if valid_date y m d then Some \<lparr>year = y, month = m, day = d\<rparr>
          else None)"

section \<open>File discovery\<close>

text \<open>
  \<open>base_dir.rglob("*.csv")\<close> walks the tree under the data directory. The tree is given
  as the list of the paths under it, in the order the walk yields them; the pattern keeps
  the paths whose name ends in \<open>.csv\<close>.
\<close>

definition rglob_csv :: "path list \<Rightarrow> path list" where
  "rglob_csv tree =
     filter (\<lambda>p. 4 \<le> length (name_of p) \<and> drop (length (name_of p) - 4) (name_of p) = ''.csv'') tree"

definition discovery_key :: "path \<Rightarrow> string \<times> string" where
  "discovery_key x = (parent_name x, name_of x)"

definition find_csv_files :: "path list \<Rightarrow> path list" where
  "find_csv_files tree =
     sort_key discovery_key
       (filter (\<lambda>csv_file. strptime_ymd (parent_name csv_file) \<noteq> None) (rglob_csv tree))"

section \<open>The persistence gateway (\<open>simple_database.py\<close>)\<close>

text \<open>
  A field of a parsed CSV file, by what pandas makes of its text: a missing value
  (\<open>NaN\<close>: an empty field or one of the texts \<open>read_csv\<close> reads as missing), a number
  (\<open>Num\<close>: text that \<open>read_csv\<close> or \<open>pd.to_numeric\<close> converts), or any other text
  (\<open>Str\<close>). Numbers are exact rationals here; the source holds them as binary floating
  point.
\<close>

datatype cell = NaN | Num rat | Str string

text \<open>
  One element of \<open>df.to_dict('records')\<close>, with the keys that \<open>save_file_data\<close> reads.
\<close>

record sale_row =
  doc_id :: cell
  store_id :: nat
  cash_id :: nat
  item :: cell
  category :: cell
  amount :: int
  price :: rat
  discount :: rat
  receipt_date :: date

text \<open>A row of table \<open>receipts\<close>: the inserted values and the file name they are tagged with.\<close>

record receipt =
  cols :: sale_row
  file_name :: string

datatype status = Success | Error

text \<open>
  Modelled from the spec: the declaration of table \<open>processed_files\<close>
  (\<open>sql/create_tables.sql\<close> is not among the sources). The table is keyed by file name
  (the \<open>ON CONFLICT (file_name)\<close> of both upserts needs that key), so it is a map from
  file names to the other columns. A column that an \<open>INSERT\<close> does not name gets its
  default: \<open>None\<close> for the row count and the error message, the current time for the
  timestamp.
\<close>

record processed_file =
  records_count :: "nat option"
  status :: status
  error_message :: "string option"
  processed_at :: nat

record database =
  receipts :: "receipt list"
  processed_files :: "string \<rightharpoonup> processed_file"

text \<open>
  What the database server does during one call is given from outside. The calls of the
  success path that can raise are \<open>connect\<close>, the \<open>DELETE\<close>, the \<open>INSERT\<close> of the row with
  a given index, the upsert and \<open>commit\<close>; each fault carries the text of its exception.
  \<open>rollback\<close>, \<open>cursor\<close> and \<open>close\<close> are taken not to raise.
\<close>

datatype fault =
    NoFault
  | ConnectFails string
  | DeleteFails string
  | InsertFails nat string
  | UpsertFails string
  | CommitFails string

text \<open>The two calls of the error-recording transaction that can raise.\<close>

datatype error_write_fault = ErrorWriteOk | ErrorExecuteFails | ErrorCommitFails

record db_conditions =
  query_fails :: bool
  save_fault :: fault
  error_fault :: error_write_fault
  current_timestamp :: nat

definition tagged :: "string \<Rightarrow> sale_row \<Rightarrow> receipt" where
  "tagged filename row = \<lparr>cols = row, file_name = filename\<rparr>"

text \<open>\<open>DELETE FROM receipts WHERE file_name = %s\<close>\<close>

definition delete_receipts :: "string \<Rightarrow> receipt list \<Rightarrow> receipt list" where
  "delete_receipts filename tbl = filter (\<lambda>r. file_name r \<noteq> filename) tbl"

definition insert_fault_at :: "fault \<Rightarrow> nat \<Rightarrow> string option" where
  "insert_fault_at flt k =
     (case flt of InsertFails j msg \<Rightarrow> (if j = k then Some msg else None) | _ \<Rightarrow> None)"

text \<open>The loop \<open>for row in data: cursor.execute("INSERT INTO receipts ...")\<close>; \<open>k\<close> is the
  index of the next row, \<open>Inl\<close> the exception that ends the loop.\<close>

fun insert_rows :: "fault \<Rightarrow> string \<Rightarrow> nat \<Rightarrow> sale_row list \<Rightarrow> receipt list \<Rightarrow> string + receipt list" where
  "insert_rows flt filename k [] tbl = Inr tbl"
| "insert_rows flt filename k (row # data) tbl =
     (case insert_fault_at flt k of
        Some msg \<Rightarrow> Inl msg
      | None \<Rightarrow> insert_rows flt filename (Suc k) data (tbl @ [tagged filename row]))"

text \<open>
  \<open>INSERT INTO processed_files (file_name, records_count, status) VALUES (%s, %s, 'success')
  ON CONFLICT (file_name) DO UPDATE SET processed_at = CURRENT_TIMESTAMP, status = 'success',
  records_count = EXCLUDED.records_count\<close>
\<close>

definition upsert_success :: "nat \<Rightarrow> string \<Rightarrow> nat \<Rightarrow> (string \<rightharpoonup> processed_file) \<Rightarrow> (string \<rightharpoonup> processed_file)" where
  "upsert_success now filename n ledger =
     ledger(filename \<mapsto>
       (case ledger filename of
          None \<Rightarrow> \<lparr>records_count = Some n, status = Success, error_message = None, processed_at = now\<rparr>
        | Some e \<Rightarrow> e\<lparr>processed_at := now, status := Success, records_count := Some n\<rparr>))"

text \<open>
  \<open>INSERT INTO processed_files (file_name, status, error_message) VALUES (%s, 'error', %s)
  ON CONFLICT (file_name) DO UPDATE SET processed_at = CURRENT_TIMESTAMP, status = 'error',
  error_message = EXCLUDED.error_message\<close>
\<close>

definition upsert_error :: "nat \<Rightarrow> string \<Rightarrow> string \<Rightarrow> (string \<rightharpoonup> processed_file) \<Rightarrow> (string \<rightharpoonup> processed_file)" where
  "upsert_error now filename msg ledger =
     ledger(filename \<mapsto>
       (case ledger filename of
          None \<Rightarrow> \<lparr>records_count = None, status = Error, error_message = Some msg, processed_at = now\<rparr>
        | Some e \<Rightarrow> e\<lparr>processed_at := now, status := Error, error_message := Some msg\<rparr>))"

text \<open>
  The body of the \<open>try\<close> block after \<open>connect\<close>, run on the transaction's own view of the
  database: \<open>Inr\<close> is the state that \<open>commit\<close> made permanent, \<open>Inl\<close> the text of the
  exception raised before that.
\<close>

definition transaction :: "db_conditions \<Rightarrow> database \<Rightarrow> string \<Rightarrow> sale_row list \<Rightarrow> string + database" where
  "transaction c db filename data =
     (case save_fault c of
        DeleteFails msg \<Rightarrow> Inl msg
      | _ \<Rightarrow>
        (case insert_rows (save_fault c) filename 0 data (delete_receipts filename (receipts db)) of
           Inl msg \<Rightarrow> Inl msg
         | Inr tbl \<Rightarrow>
           (case save_fault c of
              UpsertFails msg \<Rightarrow> Inl msg
            | CommitFails msg \<Rightarrow> Inl msg
            | _ \<Rightarrow>
              Inr \<lparr>receipts = tbl,
                   processed_files =
                     upsert_success (current_timestamp c) filename (length data) (processed_files db)\<rparr>)))"

text \<open>
  \<open>SimpleDB.save_file_data\<close>. When \<open>connect\<close> raises, \<open>conn\<close> is still \<open>None\<close>: nothing is
  rolled back and nothing is written. Otherwise an exception is followed by \<open>rollback\<close>,
  which leaves the database as it was before the call, and by the second transaction
  with \<open>str(e)[:200]\<close>.
\<close>

definition save_file_data :: "db_conditions \<Rightarrow> database \<Rightarrow> string \<Rightarrow> sale_row list \<Rightarrow> bool \<times> database" where
  "save_file_data c db filename data =
     (case save_fault c of
        ConnectFails msg \<Rightarrow> (False, db)
      | _ \<Rightarrow>
        (case transaction c db filename data of
           Inr db' \<Rightarrow> (True, db')
         | Inl e \<Rightarrow>
           (case error_fault c of
              ErrorExecuteFails \<Rightarrow> (False, db)
            | ErrorCommitFails \<Rightarrow> (False, db)
            | ErrorWriteOk \<Rightarrow>
                (False,
                 db\<lparr>processed_files :=
                      upsert_error (current_timestamp c) filename (take 200 e) (processed_files db)\<rparr>))))"

text \<open>
  \<open>SimpleDB.is_file_processed\<close>: \<open>SELECT 1 FROM processed_files WHERE file_name = %s AND
  status = 'success'\<close>, and \<open>False\<close> when \<open>connect\<close> or the query raises.
\<close>

definition is_file_processed :: "db_conditions \<Rightarrow> database \<Rightarrow> string \<Rightarrow> bool" where
  "is_file_processed c db filename =
     (if query_fails c then False
      else (case processed_files db filename of
              None \<Rightarrow> False
            | Some e \<Rightarrow> status e = Success))"

section \<open>The loader (\<open>loader.py\<close>)\<close>

text \<open>
  A data frame as \<open>pd.read_csv\<close> returns it: the column names of the header and the rows,
  each a map from column names to fields. A field a row does not have reads as missing.
\<close>

record data_frame =
  columns :: "string list"
  rows :: "(string \<rightharpoonup> cell) list"

definition cell_at :: "(string \<rightharpoonup> cell) \<Rightarrow> string \<Rightarrow> cell" where
  "cell_at r c = (case r c of None \<Rightarrow> NaN | Some v \<Rightarrow> v)"

text \<open>
  The file system and the database server as the loader meets them: the walk of the data
  directory, \<open>stat().st_size\<close> and \<open>pd.read_csv\<close> (\<open>None\<close> when the call raises),
  \<open>Path.exists\<close>, and what the database does while a given file is processed.
\<close>

record world =
  tree :: "path list"
  st_size :: "path \<Rightarrow> nat option"
  read_csv :: "path \<Rightarrow> data_frame option"
  path_exists :: "path \<Rightarrow> bool"
  conditions :: "path \<Rightarrow> db_conditions"

record loader =
  store :: database
  processed_count :: nat
  error_count :: nat
  total_records :: nat

text \<open>\<open>DataLoader.__init__\<close>, on the database that \<open>SimpleDB\<close> connects to.\<close>

definition new_loader :: "database \<Rightarrow> loader" where
  "new_loader db = \<lparr>store = db, processed_count = 0, error_count = 0, total_records = 0\<rparr>"

definition validate_csv_file :: "world \<Rightarrow> path \<Rightarrow> bool" where
  "validate_csv_file w filepath =
     (if lower (suffix_of filepath) \<noteq> ''.csv'' then False
      else if extract_store_cash_from_filename filepath = None then False
      else (case st_size w filepath of
              None \<Rightarrow> False
            | Some n \<Rightarrow> if n = 0 then False else True))"

definition required_columns :: "string list" where
  "required_columns = [''doc_id'', ''item'', ''category'', ''amount'', ''price'', ''discount'']"

text \<open>\<open>df.dropna(subset=[...])\<close>\<close>

definition dropna :: "string list \<Rightarrow> (string \<rightharpoonup> cell) list \<Rightarrow> (string \<rightharpoonup> cell) list" where
  "dropna names rs = filter (\<lambda>r. list_all (\<lambda>c. cell_at r c \<noteq> NaN) names) rs"

text \<open>\<open>df.fillna({c: v})\<close>\<close>

definition fillna :: "string \<Rightarrow> cell \<Rightarrow> (string \<rightharpoonup> cell) list \<Rightarrow> (string \<rightharpoonup> cell) list" where
  "fillna c v rs = map (\<lambda>r. if cell_at r c = NaN then r(c \<mapsto> v) else r) rs"

text \<open>\<open>pd.to_numeric(..., errors='coerce')\<close> on one field; \<open>None\<close> is \<open>NaN\<close>.\<close>

definition to_numeric :: "cell \<Rightarrow> rat option" where
  "to_numeric c = (case c of Num x \<Rightarrow> Some x | _ \<Rightarrow> None)"

text \<open>\<open>astype(int)\<close> drops the fraction.\<close>

definition astype_int :: "rat \<Rightarrow> int" where
  "astype_int x = (if 0 \<le> x then \<lfloor>x\<rfloor> else \<lceil>x\<rceil>)"

text \<open>\<open>pd.to_numeric(df['amount'], errors='coerce').fillna(1).astype(int)\<close>\<close>

definition coerce_amount :: "cell \<Rightarrow> int" where
  "coerce_amount c = astype_int (case to_numeric c of None \<Rightarrow> 1 | Some x \<Rightarrow> x)"

text \<open>\<open>pd.to_numeric(df[...], errors='coerce').fillna(0)\<close>\<close>

definition coerce_money :: "cell \<Rightarrow> rat" where
  "coerce_money c = (case to_numeric c of None \<Rightarrow> 0 | Some x \<Rightarrow> x)"

text \<open>\<open>round(2)\<close>: to two decimals, a tie to the even neighbour.\<close>

definition round2 :: "rat \<Rightarrow> rat" where
  "round2 x =
     (let y = x * 100; f = \<lfloor>y\<rfloor>; frac = y - of_int f
      in of_int (if frac < 1 / 2 then f
                 else if 1 / 2 < frac then f + 1
                 else if even f then f else f + 1) / 100)"

text \<open>The frame after the type conversions: each row with its three numeric columns.\<close>

definition convert_types :: "(string \<rightharpoonup> cell) list \<Rightarrow> ((string \<rightharpoonup> cell) \<times> int \<times> rat \<times> rat) list" where
  "convert_types rs =
     map (\<lambda>r. (r, coerce_amount (cell_at r ''amount''),
                  coerce_money (cell_at r ''price''),
                  coerce_money (cell_at r ''discount''))) rs"

text \<open>\<open>df[(df['amount'] > 0) & (df['price'] >= 0) & (df['discount'] >= 0)]\<close>\<close>

definition keep_correct :: "((string \<rightharpoonup> cell) \<times> int \<times> rat \<times> rat) list \<Rightarrow> ((string \<rightharpoonup> cell) \<times> int \<times> rat \<times> rat) list" where
  "keep_correct ts = filter (\<lambda>(r, a, p, d). 0 < a \<and> 0 \<le> p \<and> 0 \<le> d) ts"

text \<open>The metadata columns, the rounding, and the row as \<open>to_dict('records')\<close> gives it.\<close>

definition finish_row :: "nat \<Rightarrow> nat \<Rightarrow> date \<Rightarrow> (string \<rightharpoonup> cell) \<times> int \<times> rat \<times> rat \<Rightarrow> sale_row" where
  "finish_row sid cid rdate t =
     (case t of (r, a, p, d) \<Rightarrow>
        \<lparr>doc_id = cell_at r ''doc_id'', store_id = sid, cash_id = cid,
         item = cell_at r ''item'', category = cell_at r ''category'',
         amount = a, price = round2 p, discount = round2 d, receipt_date = rdate\<rparr>)"

definition clean_rows :: "nat \<Rightarrow> nat \<Rightarrow> date \<Rightarrow> (string \<rightharpoonup> cell) list \<Rightarrow> sale_row list" where
  "clean_rows sid cid rdate rs =
     map (finish_row sid cid rdate)
       (keep_correct (convert_types (fillna ''discount'' (Num 0) (dropna [''doc_id'', ''item''] rs))))"

text \<open>
  \<open>DataLoader.read_and_prepare_data\<close>; \<open>None\<close> is the source's \<open>None\<close>. A name the pattern
  does not match makes the tuple assignment raise, which the outer \<open>except\<close> turns into
  \<open>None\<close>, as it does an exception of \<open>read_csv\<close>.
\<close>

definition read_and_prepare_data :: "world \<Rightarrow> path \<Rightarrow> sale_row list option" where
  "read_and_prepare_data w filepath =
     (case extract_store_cash_from_filename filepath of
        None \<Rightarrow> None
      | Some (sid, cid) \<Rightarrow>
        (case strptime_ymd (parent_name filepath) of
           None \<Rightarrow> None
         | Some rdate \<Rightarrow>
           (case read_csv w filepath of
              None \<Rightarrow> None
            | Some df \<Rightarrow>
                if filter (\<lambda>col. col \<notin> set (columns df)) required_columns \<noteq> [] then None
                else Some (clean_rows sid cid rdate (rows df)))))"

text \<open>\<open>DataLoader.process_file\<close>: the returned flag and the loader after the call.\<close>

definition process_file :: "world \<Rightarrow> path \<Rightarrow> loader \<Rightarrow> bool \<times> loader" where
  "process_file w filepath l =
     (let filename = name_of filepath; c = conditions w filepath
      in if is_file_processed c (store l) filename then (True, l)
         else if \<not> validate_csv_file w filepath then (False, l)
         else (case read_and_prepare_data w filepath of
                 None \<Rightarrow> (False, l)
               | Some df \<Rightarrow>
                   if df = [] then (False, l)
                   else (case save_file_data c (store l) filename df of
                           (success, db') \<Rightarrow>
                             if success
                             then (True, l\<lparr>store := db',
                                           processed_count := processed_count l + 1,
                                           total_records := total_records l + length df\<rparr>)
                             else (False, l\<lparr>store := db', error_count := error_count l + 1\<rparr>))))"

text \<open>The statistics \<open>process_all_files\<close> returns, without the elapsed time.\<close>

record statistics =
  processed :: nat
  errors :: nat
  total :: nat

text \<open>Python's truth value of an optional text: \<open>None\<close> and the empty text are false.\<close>

definition given :: "string option \<Rightarrow> bool" where
  "given a = (case a of None \<Rightarrow> False | Some s \<Rightarrow> s \<noteq> [])"

definition process_all_files :: "world \<Rightarrow> string option \<Rightarrow> loader \<Rightarrow> statistics \<times> loader" where
  "process_all_files w specific_date l =
     (let csv_files = find_csv_files (tree w)
      in if csv_files = [] then (\<lparr>processed = 0, errors = 0, total = 0\<rparr>, l)
         else (let selected =
                     (if given specific_date
                      then filter (\<lambda>f. Some (parent_name f) = specific_date) csv_files
                      else csv_files);
                   l' = fold (\<lambda>csv_file st. snd (process_file w csv_file st)) selected l
               in (\<lparr>processed = processed_count l', errors = error_count l',
                    total = total_records l'\<rparr>, l')))"

text \<open>\<open>Path(text)\<close>: the components between slashes, without empty ones and single dots.\<close>

fun split_slash :: "string \<Rightarrow> string list" where
  "split_slash [] = [[]]"
| "split_slash (c # s) =
     (if c = CHR ''/'' then [] # split_slash s
      else (case split_slash s of
              [] \<Rightarrow> [[c]]
            | h # t \<Rightarrow> (c # h) # t))"

definition path_of :: "string \<Rightarrow> path" where
  "path_of s = filter (\<lambda>part. part \<noteq> [] \<and> part \<noteq> ''.'') (split_slash s)"

text \<open>The command line of the loader, as \<open>argparse\<close> returns it.\<close>

record args =
  arg_date :: "string option"
  arg_file :: "string option"
  arg_verbose :: bool
  arg_force :: bool

text \<open>
  \<open>main\<close> of \<open>loader.py\<close>, from the parsed arguments on: the loader it leaves behind (its
  database and its counters). The log level is the only use of \<open>args.verbose\<close>.
\<close>

definition loader_main :: "world \<Rightarrow> args \<Rightarrow> database \<Rightarrow> loader" where
  "loader_main w a db =
     (let l = new_loader db
      in if given (arg_file a)
         then (let filepath = path_of (the (arg_file a))
               in if path_exists w filepath then snd (process_file w filepath l) else l)
         else snd (process_all_files w (arg_date a) l))"

section \<open>The generator (\<open>generate_sales.py\<close>)\<close>

subsection \<open>Dates as the generator uses them\<close>

definition days_before_year :: "nat \<Rightarrow> nat" where
  "days_before_year y =
     (let z = y - 1 in z * 365 + z div 4 + z div 400 - z div 100)"

definition days_before_month :: "nat \<Rightarrow> nat \<Rightarrow> nat" where
  "days_before_month y m = sum_list (map (days_in_month y) [1..<m])"

text \<open>\<open>date.toordinal()\<close> and \<open>weekday()\<close>: Monday is 0 and Sunday is 6.\<close>

definition toordinal :: "date \<Rightarrow> nat" where
  "toordinal d = days_before_year (year d) + days_before_month (year d) (month d) + day d"

definition weekday :: "date \<Rightarrow> nat" where
  "weekday d = (toordinal d + 6) mod 7"

definition digit_char :: "nat \<Rightarrow> char" where
  "digit_char n = ''0123456789'' ! n"

text \<open>\<open>str(n)\<close> of a natural number.\<close>

fun show_nat :: "nat \<Rightarrow> string" where
  "show_nat n = (if n < 10 then [digit_char n] else show_nat (n div 10) @ [digit_char (n mod 10)])"

declare show_nat.simps [simp del]

definition zero_pad :: "nat \<Rightarrow> string \<Rightarrow> string" where
  "zero_pad k s = replicate (k - length s) (CHR ''0'') @ s"

text \<open>\<open>strftime("%Y-%m-%d")\<close>, with the year padded to four digits.\<close>

definition strftime_ymd :: "date \<Rightarrow> string" where
  "strftime_ymd d =
     zero_pad 4 (show_nat (year d)) @ ''-'' @ zero_pad 2 (show_nat (month d)) @ ''-'' @
     zero_pad 2 (show_nat (day d))"

subsection \<open>Configuration and chance\<close>

datatype py_error = ValueError | IndexError | KeyError

record product =
  product_item :: string
  price_range :: "rat \<times> rat"

text \<open>
  Modelled from the spec: the module \<open>config\<close> (\<open>config.py\<close> is not among the sources).
  The fields down to \<open>RECEIPTS_PER_CASH_PER_DAY\<close> are the names \<open>generate_sales.py\<close>
  reads, \<open>holidays\<close> being \<open>GENERATION_SETTINGS['holidays']\<close>. The last two are settings
  the spec lists as required configuration (`weekly off-day', the lower one of the
  `receipts-per-file bounds') and that no line of the sources reads.
\<close>

record config =
  DATA_DIR :: path
  CATEGORIES :: "string list"
  PRODUCTS_BY_CATEGORY :: "string \<rightharpoonup> product list"
  DISCOUNT_PROBABILITY :: rat
  DISCOUNT_RANGE :: "rat \<times> rat"
  holidays :: "string list"
  MIN_CASH_REGISTERS_PER_STORE :: int
  MAX_CASH_REGISTERS_PER_STORE :: int
  ITEMS_PER_RECEIPT_MIN :: int
  ITEMS_PER_RECEIPT_MAX :: int
  RECEIPTS_PER_CASH_PER_DAY :: int
  weekly_off_day :: nat
  receipts_per_file_min :: int

text \<open>
  What the generator takes from outside: the numbers the random generator will produce,
  one raw number for each elementary draw, the readings of the clock that
  \<open>generate_doc_id\<close> formats, and the day \<open>datetime.now()\<close> returns.
\<close>

record chance =
  draws :: "nat \<Rightarrow> nat"
  clock :: "nat \<Rightarrow> string"
  today :: date

definition next_draw :: "chance \<Rightarrow> nat \<times> chance" where
  "next_draw ch = (draws ch 0, ch\<lparr>draws := (\<lambda>i. draws ch (Suc i))\<rparr>)"

definition read_clock :: "chance \<Rightarrow> string \<times> chance" where
  "read_clock ch = (clock ch 0, ch\<lparr>clock := (\<lambda>i. clock ch (Suc i))\<rparr>)"

text \<open>\<open>random.randint(a, b)\<close>: \<open>ValueError\<close> on an empty range.\<close>

definition randint :: "int \<Rightarrow> int \<Rightarrow> chance \<Rightarrow> py_error + (int \<times> chance)" where
  "randint a b ch =
     (if b < a then Inl ValueError
      else (case next_draw ch of (x, ch') \<Rightarrow> Inr (a + int (x mod nat (b - a + 1)), ch')))"

text \<open>\<open>random.choice(seq)\<close>: \<open>IndexError\<close> on an empty sequence.\<close>

definition choice :: "'a list \<Rightarrow> chance \<Rightarrow> py_error + ('a \<times> chance)" where
  "choice xs ch =
     (if xs = [] then Inl IndexError
      else (case next_draw ch of (x, ch') \<Rightarrow> Inr (xs ! (x mod length xs), ch')))"

text \<open>
  \<open>random.random()\<close>, a multiple of \<open>2 ^ -53\<close> in \<open>[0, 1)\<close>, and \<open>random.uniform(a, b)\<close>.
  Prices and discounts are exact rationals here, as in the loader; the source computes
  them in binary floating point.
\<close>

definition random_unit :: "chance \<Rightarrow> rat \<times> chance" where
  "random_unit ch = (case next_draw ch of (x, ch') \<Rightarrow> (of_nat (x mod 2 ^ 53) / 2 ^ 53, ch'))"

definition uniform :: "rat \<Rightarrow> rat \<Rightarrow> chance \<Rightarrow> rat \<times> chance" where
  "uniform a b ch = (case random_unit ch of (u, ch') \<Rightarrow> (a + (b - a) * u, ch'))"

text \<open>\<open>random.choices(population, k=n)\<close> on a population that is not empty.\<close>

fun choices :: "'a list \<Rightarrow> nat \<Rightarrow> chance \<Rightarrow> 'a list \<times> chance" where
  "choices population 0 ch = ([], ch)"
| "choices population (Suc k) ch =
     (case next_draw ch of (x, ch1) \<Rightarrow>
        (case choices population k ch1 of (rest, ch2) \<Rightarrow>
           (population ! (x mod length population) # rest, ch2)))"

subsection \<open>Receipts\<close>

record line_item =
  li_doc_id :: string
  li_item :: string
  li_category :: string
  li_amount :: int
  li_price :: rat
  li_discount :: rat
  li_store_id :: nat
  li_cash_id :: nat
  li_receipt_date :: date

definition generate_doc_id :: "chance \<Rightarrow> string \<times> chance" where
  "generate_doc_id ch =
     (case read_clock ch of (timestamp, ch1) \<Rightarrow>
        (case choices ''ABCDEFGHIJKLMNOPQRSTUVWXYZ0123456789'' 6 ch1 of (random_part, ch2) \<Rightarrow>
           (timestamp @ ''_'' @ random_part, ch2)))"

text \<open>\<open>PRODUCTS_BY_CATEGORY[category]\<close> raises \<open>KeyError\<close> for a category without an entry.\<close>

definition select_item_from_category :: "config \<Rightarrow> string \<Rightarrow> chance \<Rightarrow> py_error + (product \<times> chance)" where
  "select_item_from_category cfg cat ch =
     (case PRODUCTS_BY_CATEGORY cfg cat of
        None \<Rightarrow> Inl KeyError
      | Some items \<Rightarrow> choice items ch)"

definition calculate_discount :: "config \<Rightarrow> rat \<Rightarrow> chance \<Rightarrow> rat \<times> chance" where
  "calculate_discount cfg p ch =
     (case random_unit ch of (u, ch1) \<Rightarrow>
        if u < DISCOUNT_PROBABILITY cfg
        then (case uniform (fst (DISCOUNT_RANGE cfg)) (snd (DISCOUNT_RANGE cfg)) ch1 of
                (discount_percent, ch2) \<Rightarrow> (round2 (p * discount_percent), ch2))
        else (0, ch1))"

text \<open>The loop \<open>for _ in range(num_items)\<close> of \<open>generate_receipt\<close>.\<close>

fun receipt_items :: "config \<Rightarrow> string \<Rightarrow> nat \<Rightarrow> nat \<Rightarrow> date \<Rightarrow> nat \<Rightarrow> chance \<Rightarrow> py_error + (line_item list \<times> chance)" where
  "receipt_items cfg doc sid cid rdate 0 ch = Inr ([], ch)"
| "receipt_items cfg doc sid cid rdate (Suc n) ch =
     (case choice (CATEGORIES cfg) ch of
        Inl e \<Rightarrow> Inl e
      | Inr (cat, ch1) \<Rightarrow>
        (case select_item_from_category cfg cat ch1 of
           Inl e \<Rightarrow> Inl e
         | Inr (item_data, ch2) \<Rightarrow>
           (case uniform (fst (price_range item_data)) (snd (price_range item_data)) ch2 of
              (p, ch3) \<Rightarrow>
                (case randint 1 5 ch3 of
                   Inl e \<Rightarrow> Inl e
                 | Inr (amt, ch4) \<Rightarrow>
                   (case calculate_discount cfg p ch4 of
                      (disc, ch5) \<Rightarrow>
                        (case receipt_items cfg doc sid cid rdate n ch5 of
                           Inl e \<Rightarrow> Inl e
                         | Inr (rest, ch6) \<Rightarrow>
                             Inr (\<lparr>li_doc_id = doc, li_item = product_item item_data,
                                   li_category = cat, li_amount = amt, li_price = round2 p,
                                   li_discount = disc, li_store_id = sid, li_cash_id = cid,
                                   li_receipt_date = rdate\<rparr> # rest, ch6)))))))"

definition generate_receipt :: "config \<Rightarrow> nat \<Rightarrow> nat \<Rightarrow> date \<Rightarrow> chance \<Rightarrow> py_error + (line_item list \<times> chance)" where
  "generate_receipt cfg sid cid rdate ch =
     (case generate_doc_id ch of (doc, ch1) \<Rightarrow>
        (case randint (ITEMS_PER_RECEIPT_MIN cfg) (ITEMS_PER_RECEIPT_MAX cfg) ch1 of
           Inl e \<Rightarrow> Inl e
         | Inr (num_items, ch2) \<Rightarrow> receipt_items cfg doc sid cid rdate (nat num_items) ch2))"

text \<open>The loop \<open>for _ in range(num_receipts)\<close> of \<open>generate_cash_data\<close>.\<close>

fun cash_receipts :: "config \<Rightarrow> nat \<Rightarrow> nat \<Rightarrow> date \<Rightarrow> nat \<Rightarrow> chance \<Rightarrow> py_error + (line_item list \<times> chance)" where
  "cash_receipts cfg sid cid rdate 0 ch = Inr ([], ch)"
| "cash_receipts cfg sid cid rdate (Suc n) ch =
     (case generate_receipt cfg sid cid rdate ch of
        Inl e \<Rightarrow> Inl e
      | Inr (receipt_lines, ch1) \<Rightarrow>
        (case cash_receipts cfg sid cid rdate n ch1 of
           Inl e \<Rightarrow> Inl e
         | Inr (rest, ch2) \<Rightarrow> Inr (receipt_lines @ rest, ch2)))"

definition generate_cash_data :: "config \<Rightarrow> nat \<Rightarrow> nat \<Rightarrow> date \<Rightarrow> int option \<Rightarrow> chance \<Rightarrow> py_error + (line_item list \<times> chance)" where
  "generate_cash_data cfg sid cid rdate num_receipts ch =
     (case (case num_receipts of
              None \<Rightarrow> randint 30 (RECEIPTS_PER_CASH_PER_DAY cfg) ch
            | Some n \<Rightarrow> Inr (n, ch)) of
        Inl e \<Rightarrow> Inl e
      | Inr (n, ch1) \<Rightarrow> cash_receipts cfg sid cid rdate (nat n) ch1)"

subsection \<open>Stores and daily files\<close>

text \<open>
  \<open>self.stores\<close>: the store numbers in the order of insertion, each with its list
  \<open>cash_registers\<close>.
\<close>

type_synonym stores = "(nat \<times> nat list) list"

fun init_stores :: "config \<Rightarrow> nat list \<Rightarrow> chance \<Rightarrow> py_error + (stores \<times> chance)" where
  "init_stores cfg [] ch = Inr ([], ch)"
| "init_stores cfg (sid # rest) ch =
     (case randint (MIN_CASH_REGISTERS_PER_STORE cfg) (MAX_CASH_REGISTERS_PER_STORE cfg) ch of
        Inl e \<Rightarrow> Inl e
      | Inr (num_cash_registers, ch1) \<Rightarrow>
        (case init_stores cfg rest ch1 of
           Inl e \<Rightarrow> Inl e
         | Inr (others, ch2) \<Rightarrow>
             Inr ((sid, [1..<nat (num_cash_registers + 1)]) # others, ch2)))"

text \<open>\<open>DataGenerator.initialize_stores\<close>, over \<open>range(1, self.num_stores + 1)\<close>.\<close>

definition initialize_stores :: "config \<Rightarrow> int \<Rightarrow> chance \<Rightarrow> py_error + (stores \<times> chance)" where
  "initialize_stores cfg num_stores ch = init_stores cfg [1..<nat (num_stores + 1)] ch"

text \<open>
  A file \<open>to_csv\<close> wrote: its path, its rows, and the number of receipts that the log
  line of the file reports.
\<close>

record written_file =
  w_path :: path
  w_receipts :: int
  w_items :: "line_item list"

text \<open>The argument \<open>target_date\<close>: absent, a text, or a \<open>datetime\<close>.\<close>

datatype date_arg = Today | DateText string | DateValue date

definition csv_name :: "nat \<Rightarrow> nat \<Rightarrow> string" where
  "csv_name sid cid = show_nat sid @ ''_'' @ show_nat cid @ ''.csv''"

text \<open>The inner loop \<open>for cash_id in store_info['cash_registers']\<close>.\<close>

fun cash_files :: "config \<Rightarrow> path \<Rightarrow> date \<Rightarrow> nat \<Rightarrow> nat list \<Rightarrow> chance \<Rightarrow> py_error + (written_file list \<times> chance)" where
  "cash_files cfg day_dir d sid [] ch = Inr ([], ch)"
| "cash_files cfg day_dir d sid (cid # rest) ch =
     (case randint 20 (RECEIPTS_PER_CASH_PER_DAY cfg) ch of
        Inl e \<Rightarrow> Inl e
      | Inr (num_receipts, ch1) \<Rightarrow>
        (case generate_cash_data cfg sid cid d (Some num_receipts) ch1 of
           Inl e \<Rightarrow> Inl e
         | Inr (df, ch2) \<Rightarrow>
           (case cash_files cfg day_dir d sid rest ch2 of
              Inl e \<Rightarrow> Inl e
            | Inr (others, ch3) \<Rightarrow>
                Inr (\<lparr>w_path = day_dir @ [csv_name sid cid], w_receipts = num_receipts,
                      w_items = df\<rparr> # others, ch3))))"

text \<open>The outer loop \<open>for store_id, store_info in self.stores.items()\<close>.\<close>

fun store_files :: "config \<Rightarrow> path \<Rightarrow> date \<Rightarrow> stores \<Rightarrow> chance \<Rightarrow> py_error + (written_file list \<times> chance)" where
  "store_files cfg day_dir d [] ch = Inr ([], ch)"
| "store_files cfg day_dir d ((sid, cash_registers) # rest) ch =
     (case cash_files cfg day_dir d sid cash_registers ch of
        Inl e \<Rightarrow> Inl e
      | Inr (files, ch1) \<Rightarrow>
        (case store_files cfg day_dir d rest ch1 of
           Inl e \<Rightarrow> Inl e
         | Inr (others, ch2) \<Rightarrow> Inr (files @ others, ch2)))"

text \<open>
  The first lines of \<open>generate_daily_files\<close>: today when no date is given, the parsed
  text when a text is given (\<open>None\<close> is the \<open>ValueError\<close> of \<open>strptime\<close>), the date itself
  otherwise.
\<close>

definition target_day :: "chance \<Rightarrow> date_arg \<Rightarrow> date option" where
  "target_day ch target_date =
     (case target_date of
        Today \<Rightarrow> Some (today ch)
      | DateText s \<Rightarrow> strptime_ymd s
      | DateValue d \<Rightarrow> Some d)"

text \<open>
  \<open>DataGenerator.generate_daily_files\<close>: the returned number of files, the files written
  in the order of writing, and what is left of the chance. \<open>Inl\<close> is an exception that
  leaves the function.
\<close>

definition generate_daily_files :: "config \<Rightarrow> stores \<Rightarrow> date_arg \<Rightarrow> bool \<Rightarrow> chance \<Rightarrow> py_error + (nat \<times> written_file list \<times> chance)" where
  "generate_daily_files cfg the_stores target_date force ch =
     (case target_day ch target_date of
        None \<Rightarrow> Inl ValueError
      | Some d \<Rightarrow>
          if weekday d = 6 \<and> \<not> force then Inr (0, [], ch)
          else if strftime_ymd d \<in> set (holidays cfg) \<and> \<not> force then Inr (0, [], ch)
          else (case store_files cfg (DATA_DIR cfg @ [strftime_ymd d]) d the_stores ch of
                  Inl e \<Rightarrow> Inl e
                | Inr (files, ch1) \<Rightarrow> Inr (length files, files, ch1)))"

section \<open>Auxiliary notions and example data\<close>

text \<open>The text of the exception that a fault raises.\<close>

definition fault_text :: "fault \<Rightarrow> string" where
  "fault_text flt =
     (case flt of
        NoFault \<Rightarrow> []
      | ConnectFails m \<Rightarrow> m
      | DeleteFails m \<Rightarrow> m
      | InsertFails k m \<Rightarrow> m
      | UpsertFails m \<Rightarrow> m
      | CommitFails m \<Rightarrow> m)"

text \<open>
  The scenario of the spec: the file \<open>3_2.csv\<close> under \<open>2024-03-10/\<close> with the header
  \<open>doc_id,item,category,amount,price,discount\<close> and the row \<open>A1,Bread,Food,2,3.50,0\<close>.
\<close>

definition bread_row :: "string \<rightharpoonup> cell" where
  "bread_row =
     [''doc_id'' \<mapsto> Str ''A1'', ''item'' \<mapsto> Str ''Bread'', ''category'' \<mapsto> Str ''Food'',
      ''amount'' \<mapsto> Num 2, ''price'' \<mapsto> Num (7 / 2), ''discount'' \<mapsto> Num 0]"

definition bread_sale :: sale_row where
  "bread_sale =
     \<lparr>doc_id = Str ''A1'', store_id = 3, cash_id = 2, item = Str ''Bread'',
      category = Str ''Food'', amount = 2, price = 7 / 2, discount = 0,
      receipt_date = \<lparr>year = 2024, month = 3, day = 10\<rparr>\<rparr>"

definition milk_sale :: sale_row where
  "milk_sale = bread_sale\<lparr>doc_id := Str ''A2'', item := Str ''Milk'', amount := 1\<rparr>"

text \<open>A database server without faults.\<close>

definition calm :: db_conditions where
  "calm = \<lparr>query_fails = False, save_fault = NoFault, error_fault = ErrorWriteOk,
            current_timestamp = 7\<rparr>"

definition empty_db :: database where
  "empty_db = \<lparr>receipts = [], processed_files = Map.empty\<rparr>"

text \<open>A database into which \<open>3_2.csv\<close> was loaded before, with one row.\<close>

definition loaded_db :: database where
  "loaded_db =
     \<lparr>receipts = [tagged ''3_2.csv'' milk_sale],
      processed_files =
        [''3_2.csv'' \<mapsto> \<lparr>records_count = Some 1, status = Success, error_message = None,
                         processed_at = 5\<rparr>]\<rparr>"

definition example_path :: path where
  "example_path = [''data'', ''2024-03-10'', ''3_2.csv'']"

text \<open>The file of the scenario, with a second row that has no item.\<close>

definition example_frame :: data_frame where
  "example_frame =
     \<lparr>columns = required_columns, rows = [bread_row, bread_row(''item'' := None)]\<rparr>"

definition example_world :: world where
  "example_world =
     \<lparr>tree = [example_path], st_size = (\<lambda>p. Some 64), read_csv = (\<lambda>p. Some example_frame),
      path_exists = (\<lambda>p. True), conditions = (\<lambda>p. calm)\<rparr>"

text \<open>The same world with a server whose processed-file query fails.\<close>

definition flaky_world :: world where
  "flaky_world = example_world\<lparr>conditions := (\<lambda>p. calm\<lparr>query_fails := True\<rparr>)\<rparr>"

text \<open>A file whose name is not of the form store, underscore, cash register.\<close>

definition stray_path :: path where
  "stray_path = [''data'', ''2024-03-10'', ''notes.csv'']"

text \<open>A file whose only row has no item, so that no row is left after the cleaning.\<close>

definition no_item_world :: world where
  "no_item_world =
     example_world\<lparr>read_csv :=
       (\<lambda>p. Some \<lparr>columns = required_columns, rows = [bread_row(''item'' := None)]\<rparr>)\<rparr>"

text \<open>The scenario of the spec with a file that has no \<open>price\<close> column.\<close>

definition no_price_world :: world where
  "no_price_world =
     example_world\<lparr>read_csv :=
       (\<lambda>p. Some \<lparr>columns = [''doc_id'', ''item'', ''category'', ''amount'', ''discount''],
                    rows = [bread_row(''price'' := None)]\<rparr>)\<rparr>"

subsection \<open>The cleaning rules in the words of the spec\<close>









subsection \<open>Generator: conditions and example data\<close>

text \<open>
  A configuration under which no receipt raises: the bounds of the items per receipt form
  a range, and when a receipt can have an item there is a category to choose, each
  category with a catalogue that is not empty.
\<close>

definition receipts_possible :: "config \<Rightarrow> bool" where
  "receipts_possible cfg =
     (ITEMS_PER_RECEIPT_MIN cfg \<le> ITEMS_PER_RECEIPT_MAX cfg
      \<and> (ITEMS_PER_RECEIPT_MAX cfg \<le> 0
         \<or> (CATEGORIES cfg \<noteq> []
            \<and> list_all (\<lambda>cat. case PRODUCTS_BY_CATEGORY cfg cat of
                                  None \<Rightarrow> False
                                | Some items \<Rightarrow> items \<noteq> [])
                 (CATEGORIES cfg))))"

text \<open>The paths of one day in the order of the two loops: one per store and cash register.\<close>

definition pair_paths :: "path \<Rightarrow> stores \<Rightarrow> path list" where
  "pair_paths day_dir sts =
     concat (map (\<lambda>(sid, cids). map (\<lambda>cid. day_dir @ [csv_name sid cid]) cids) sts)"


text \<open>
  A configuration with Saturday as the weekly off-day and 30 as the lower bound of the
  receipts per file, two stores with three cash registers between them, and a chance
  whose draws are all 0.
\<close>

definition example_config :: config where
  "example_config =
     \<lparr>DATA_DIR = [''data''], CATEGORIES = [''Food''],
      PRODUCTS_BY_CATEGORY = [''Food'' \<mapsto> [\<lparr>product_item = ''Bread'', price_range = (1, 5)\<rparr>]],
      DISCOUNT_PROBABILITY = 3 / 10, DISCOUNT_RANGE = (1 / 20, 3 / 10),
      holidays = [''2024-01-01''],
      MIN_CASH_REGISTERS_PER_STORE = 1, MAX_CASH_REGISTERS_PER_STORE = 3,
      ITEMS_PER_RECEIPT_MIN = 1, ITEMS_PER_RECEIPT_MAX = 5,
      RECEIPTS_PER_CASH_PER_DAY = 50,
      weekly_off_day = 5, receipts_per_file_min = 30\<rparr>"

definition two_stores :: stores where
  "two_stores = [(1, [1, 2]), (2, [1])]"


definition saturday :: date where
  "saturday = \<lparr>year = 2024, month = 1, day = 6\<rparr>"

definition sunday :: date where
  "sunday = \<lparr>year = 2024, month = 1, day = 7\<rparr>"

definition new_year :: date where
  "new_year = \<lparr>year = 2024, month = 1, day = 1\<rparr>"

definition still_chance :: chance where
  "still_chance = \<lparr>draws = (\<lambda>i. 0), clock = (\<lambda>i. ''240106120000''), today = saturday\<rparr>"

section \<open>File discovery: admitted files and their order\<close>


lemma find_csv_files_stable:
  "filter (\<lambda>p. discovery_key p = k) (find_csv_files walk) =
   filter (\<lambda>p. discovery_key p = k)
     (filter (\<lambda>p. strptime_ymd (parent_name p) \<noteq> None) (rglob_csv walk))"
  unfolding find_csv_files_def by (rule sort_key_stable)

text \<open>
  What \<open>strptime\<close> accepts for \<open>%Y-%m-%d\<close>: a calendar date written with four digits for
  the year; the month and the day may be written without the leading zero.
\<close>

lemma strptime_ymd_examples:
  "strptime_ymd ''2024-03-10'' = Some \<lparr>year = 2024, month = 3, day = 10\<rparr>"
  "strptime_ymd ''2024-1-5'' = Some \<lparr>year = 2024, month = 1, day = 5\<rparr>"
  "strptime_ymd ''2024-02-30'' = None"
  "strptime_ymd ''2024-13-01'' = None"
  "strptime_ymd ''backup'' = None"
  by code_simp+

lemma match_Y_shape:
  "(y, r) \<in> set (match_Y s) \<Longrightarrow>
   \<exists>ys. s = ys @ r \<and> length ys = 4 \<and> list_all is_digit ys \<and> y = int_of_digits ys"
  by (auto simp: match_Y_def split: if_splits intro!: exI [of _ "take 4 s"])

lemma match_dash_shape: "r \<in> set (match_dash s) \<Longrightarrow> s = CHR ''-'' # r"
  by (auto simp: match_dash_def split: list.splits if_splits)

lemma split2: "2 \<le> length s \<Longrightarrow> s = [s ! 0, s ! 1] @ drop 2 s"
  by (cases s; cases "tl s") auto

lemma split1: "1 \<le> length s \<Longrightarrow> s = [s ! 0] @ drop 1 s"
  by (cases s) auto

lemma match_m_shape:
  "(m, r) \<in> set (match_m s) \<Longrightarrow>
   \<exists>ms. s = ms @ r \<and> (length ms = 1 \<or> length ms = 2) \<and> list_all is_digit ms"
proof -
  assume "(m, r) \<in> set (match_m s)"
  then consider "2 \<le> length s" "r = drop 2 s" "is_digit (s ! 0)" "is_digit (s ! 1)"
    | "1 \<le> length s" "r = drop 1 s" "is_digit (s ! 0)"
    by (auto simp: match_m_def is_digit_def split: if_splits)
  then show ?thesis
  proof cases
    case 1
    then show ?thesis
      using split2 [of s] by (intro exI [of _ "[s ! 0, s ! 1]"]) simp
  next
    case 2
    then show ?thesis
      using split1 [of s] by (intro exI [of _ "[s ! 0]"]) simp
  qed
qed

lemma match_d_shape:
  "(d, r) \<in> set (match_d s) \<Longrightarrow>
   \<exists>ds. s = ds @ r \<and> (length ds = 1 \<or> length ds = 2)
        \<and> (list_all is_digit ds \<or> (\<exists>c. ds = [CHR '' '', c] \<and> is_digit c))"
proof -
  assume "(d, r) \<in> set (match_d s)"
  then consider "2 \<le> length s" "r = drop 2 s" "is_digit (s ! 0)" "is_digit (s ! 1)"
    | "1 \<le> length s" "r = drop 1 s" "is_digit (s ! 0)"
    | "2 \<le> length s" "r = drop 2 s" "s ! 0 = CHR '' ''" "is_digit (s ! 1)"
    by (auto simp: match_d_def is_digit_def split: if_splits)
  then show ?thesis
  proof cases
    case 1
    then show ?thesis
      using split2 [of s] by (intro exI [of _ "[s ! 0, s ! 1]"]) simp
  next
    case 2
    then show ?thesis
      using split1 [of s] by (intro exI [of _ "[s ! 0]"]) simp
  next
    case 3
    then show ?thesis
      using split2 [of s] by (intro exI [of _ "[s ! 0, s ! 1]"]) simp
  qed
qed

lemma regex_ymd_shape:
  assumes "((y, m, d), r) \<in> set (regex_ymd s)"
  shows "\<exists>ys ms ds. s = ys @ ''-'' @ ms @ ''-'' @ ds @ r
      \<and> length ys = 4 \<and> list_all is_digit ys \<and> y = int_of_digits ys
      \<and> (length ms = 1 \<or> length ms = 2) \<and> list_all is_digit ms
      \<and> (length ds = 1 \<or> length ds = 2)
      \<and> (list_all is_digit ds \<or> (\<exists>c. ds = [CHR '' '', c] \<and> is_digit c))"
proof -
  from assms obtain r1 r2 r3 r4 where
    my: "(y, r1) \<in> set (match_Y s)" and d1: "r2 \<in> set (match_dash r1)"
    and mm: "(m, r3) \<in> set (match_m r2)" and d2: "r4 \<in> set (match_dash r3)"
    and md: "(d, r) \<in> set (match_d r4)"
    by (auto simp: regex_ymd_def)
  from match_Y_shape [OF my] obtain ys where
    ys: "s = ys @ r1" "length ys = 4" "list_all is_digit ys" "y = int_of_digits ys"
    by blast
  from match_m_shape [OF mm] obtain ms where
    ms: "r2 = ms @ r3" "length ms = 1 \<or> length ms = 2" "list_all is_digit ms"
    by blast
  from match_d_shape [OF md] obtain ds where
    ds: "r4 = ds @ r" "length ds = 1 \<or> length ds = 2"
      "list_all is_digit ds \<or> (\<exists>c. ds = [CHR '' '', c] \<and> is_digit c)"
    by blast
  have "s = ys @ ''-'' @ ms @ ''-'' @ ds @ r"
    using ys(1) ms(1) ds(1) match_dash_shape [OF d1] match_dash_shape [OF d2] by simp
  then show ?thesis
    using ys(2-4) ms(2,3) ds(2,3) by blast
qed

text \<open>
  A name that \<open>strptime\<close> parses is a year of four digits, a month of one or two digits
  and a day of one or two digits (or a blank and a digit), with dashes between them, and
  the three numbers are a date of the calendar.
\<close>

lemma strptime_ymd_shape:
  assumes "strptime_ymd s = Some d"
  shows "valid_date (year d) (month d) (day d)
     \<and> (\<exists>ys ms ds. s = ys @ ''-'' @ ms @ ''-'' @ ds
          \<and> length ys = 4 \<and> list_all is_digit ys \<and> year d = int_of_digits ys
          \<and> (length ms = 1 \<or> length ms = 2) \<and> list_all is_digit ms
          \<and> (length ds = 1 \<or> length ds = 2)
          \<and> (list_all is_digit ds \<or> (\<exists>c. ds = [CHR '' '', c] \<and> is_digit c)))"
proof -
  from assms obtain y m dd others where first: "regex_ymd s = ((y, m, dd), []) # others"
    and valid: "valid_date y m dd" and d: "d = \<lparr>year = y, month = m, day = dd\<rparr>"
    by (auto simp: strptime_ymd_def split: list.splits if_splits)
  then have "((y, m, dd), []) \<in> set (regex_ymd s)" by simp
  from regex_ymd_shape [OF this] valid d show ?thesis by simp
qed


lemma find_csv_files_example:
  "find_csv_files
     [[''data'', ''2024-01-02'', ''2_1.csv''], [''data'', ''backup'', ''1_1.csv''],
      [''data'', ''2024-01-01'', ''2_1.csv''], [''data'', ''2024-01-01'', ''notes.txt''],
      [''data'', ''2024-01-01'', ''10_1.csv'']] =
     [[''data'', ''2024-01-01'', ''10_1.csv''], [''data'', ''2024-01-01'', ''2_1.csv''],
      [''data'', ''2024-01-02'', ''2_1.csv'']]"
  by code_simp

section \<open>The persistence gateway: atomic save and the processed check\<close>

lemma insert_rows_all:
  "(\<And>i. k \<le> i \<Longrightarrow> i < k + length data \<Longrightarrow> insert_fault_at flt i = None) \<Longrightarrow>
   insert_rows flt f k data tbl = Inr (tbl @ map (tagged f) data)"
proof (induction data arbitrary: k tbl)
  case Nil
  then show ?case by simp
next
  case (Cons row data)
  have here: "insert_fault_at flt k = None"
    by (rule Cons.prems) simp_all
  have "insert_rows flt f (Suc k) data (tbl @ [tagged f row]) =
        Inr ((tbl @ [tagged f row]) @ map (tagged f) data)"
    by (rule Cons.IH, rule Cons.prems) simp_all
  then show ?case
    by (simp add: here)
qed

lemma insert_rows_raises:
  "insert_fault_at flt j = Some msg \<Longrightarrow> k \<le> j \<Longrightarrow> j < k + length data \<Longrightarrow>
   (\<And>i. k \<le> i \<Longrightarrow> i < j \<Longrightarrow> insert_fault_at flt i = None) \<Longrightarrow>
   insert_rows flt f k data tbl = Inl msg"
proof (induction data arbitrary: k tbl)
  case Nil
  then show ?case by simp
next
  case (Cons row data)
  show ?case
  proof (cases "k = j")
    case True
    then show ?thesis using Cons.prems(1) by simp
  next
    case False
    then have lt: "k < j" using Cons.prems(2) by simp
    have here: "insert_fault_at flt k = None"
      by (rule Cons.prems(4)) (simp_all add: lt)
    have "insert_rows flt f (Suc k) data (tbl @ [tagged f row]) = Inl msg"
    proof (rule Cons.IH)
      show "insert_fault_at flt j = Some msg" by (rule Cons.prems(1))
      show "Suc k \<le> j" using lt by simp
      show "j < Suc k + length data" using Cons.prems(3) by simp
      show "insert_fault_at flt i = None" if "Suc k \<le> i" "i < j" for i
        using that by (intro Cons.prems(4)) simp_all
    qed
    then show ?thesis by (simp add: here)
  qed
qed

lemma insert_rows_InsertFails:
  "insert_rows (InsertFails j msg) f 0 data tbl =
     (if j < length data then Inl msg else Inr (tbl @ map (tagged f) data))"
proof (cases "j < length data")
  case True
  then show ?thesis
    using insert_rows_raises [where flt = "InsertFails j msg" and j = j and msg = msg
        and k = 0 and data = data and f = f and tbl = tbl]
    by (auto simp: insert_fault_at_def)
next
  case False
  then show ?thesis
    using insert_rows_all [where flt = "InsertFails j msg" and k = 0 and data = data
        and f = f and tbl = tbl]
    by (auto simp: insert_fault_at_def)
qed

lemma insert_rows_other:
  "\<forall>j msg. flt \<noteq> InsertFails j msg \<Longrightarrow>
   insert_rows flt f 0 data tbl = Inr (tbl @ map (tagged f) data)"
  by (rule insert_rows_all) (auto simp: insert_fault_at_def split: fault.splits)

text \<open>
  The two outcomes of \<open>save_file_data\<close>: the whole transaction, when no call of the
  success path raises, and otherwise the database as before, with or without the error
  entry.
\<close>

lemma save_file_data_result:
  "save_file_data c db f data =
     (if save_fault c = NoFault \<or> (\<exists>k msg. save_fault c = InsertFails k msg \<and> length data \<le> k)
      then (True,
            \<lparr>receipts = delete_receipts f (receipts db) @ map (tagged f) data,
             processed_files =
               upsert_success (current_timestamp c) f (length data) (processed_files db)\<rparr>)
      else (False,
            case save_fault c of
              ConnectFails m \<Rightarrow> db
            | _ \<Rightarrow> (case error_fault c of
                      ErrorWriteOk \<Rightarrow>
                        db\<lparr>processed_files :=
                             upsert_error (current_timestamp c) f
                               (take 200 (fault_text (save_fault c))) (processed_files db)\<rparr>
                    | _ \<Rightarrow> db)))"
proof (cases "save_fault c")
  case (InsertFails k msg)
  then show ?thesis
    by (simp add: save_file_data_def transaction_def insert_rows_InsertFails fault_text_def
        split: error_write_fault.splits)
qed (simp_all add: save_file_data_def transaction_def insert_rows_other fault_text_def
        split: error_write_fault.splits)

text \<open>
  Claim C2. A call of \<open>save_file_data\<close> returns true exactly when no call of its success
  path raises (an insert fault set for a row the data does not have never happens). Then
  the delete of the file's earlier rows, the insert of every row and the ledger entry
  with status success and the row count are all in the database. Otherwise the rows of
  table \<open>receipts\<close> are as before the call, and the ledger is either as before or differs
  in the entry of this file alone, which has status error and a message of at most 200
  characters. The entry is written whenever \<open>connect\<close> succeeded and the second
  transaction meets no fault of its own; its message is the first 200 characters of the
  exception's text.
\<close>

theorem save_file_data_atomic:
  assumes "save_file_data c db f data = (ok, db')"
  shows "(ok \<longleftrightarrow>
            save_fault c = NoFault
          \<or> (\<exists>k msg. save_fault c = InsertFails k msg \<and> length data \<le> k))
    \<and> (ok \<longrightarrow>
         receipts db' = filter (\<lambda>r. file_name r \<noteq> f) (receipts db) @ map (tagged f) data
       \<and> (\<exists>e. status e = Success \<and> records_count e = Some (length data)
              \<and> processed_files db' = (processed_files db)(f \<mapsto> e)))
    \<and> (\<not> ok \<longrightarrow>
         receipts db' = receipts db
       \<and> (processed_files db' = processed_files db
          \<or> (\<exists>e m. status e = Error \<and> error_message e = Some m \<and> length m \<le> 200
                \<and> processed_files db' = (processed_files db)(f \<mapsto> e))))
    \<and> (\<not> ok \<and> (\<forall>m. save_fault c \<noteq> ConnectFails m) \<and> error_fault c = ErrorWriteOk \<longrightarrow>
         (\<exists>e. processed_files db' f = Some e \<and> status e = Error
              \<and> error_message e = Some (take 200 (fault_text (save_fault c)))))"
proof -
  let ?commits = "save_fault c = NoFault
      \<or> (\<exists>k msg. save_fault c = InsertFails k msg \<and> length data \<le> k)"
  show ?thesis
  proof (cases ?commits)
    case True
    then have "ok" and db': "db' =
        \<lparr>receipts = delete_receipts f (receipts db) @ map (tagged f) data,
         processed_files =
           upsert_success (current_timestamp c) f (length data) (processed_files db)\<rparr>"
      using assms by (simp_all only: save_file_data_result True if_True prod.inject)
    define entry where "entry = the (processed_files db' f)"
    have "processed_files db' = (processed_files db)(f \<mapsto> entry)"
      and "status entry = Success" and "records_count entry = Some (length data)"
      by (simp_all add: entry_def db' upsert_success_def split: option.splits)
    then have "\<exists>e. status e = Success \<and> records_count e = Some (length data)
              \<and> processed_files db' = (processed_files db)(f \<mapsto> e)"
      by blast
    then show ?thesis
      using True \<open>ok\<close> by (simp add: db' delete_receipts_def)
  next
    case False
    then have "\<not> ok" and db': "db' =
        (case save_fault c of
           ConnectFails m \<Rightarrow> db
         | _ \<Rightarrow> (case error_fault c of
                   ErrorWriteOk \<Rightarrow>
                     db\<lparr>processed_files :=
                          upsert_error (current_timestamp c) f
                            (take 200 (fault_text (save_fault c))) (processed_files db)\<rparr>
                 | _ \<Rightarrow> db))"
      using assms by (simp_all only: save_file_data_result False if_False prod.inject)
    define m where "m = take 200 (fault_text (save_fault c))"
    define entry where
      "entry = the (upsert_error (current_timestamp c) f m (processed_files db) f)"
    have written: "upsert_error (current_timestamp c) f m (processed_files db) =
          (processed_files db)(f \<mapsto> entry)"
      and entry: "status entry = Error" "error_message entry = Some m" "length m \<le> 200"
      by (simp_all add: entry_def m_def upsert_error_def split: option.splits)
    have "receipts db' = receipts db"
      by (simp add: db' split: fault.splits error_write_fault.splits)
    moreover have "processed_files db' = processed_files db
          \<or> processed_files db' = (processed_files db)(f \<mapsto> entry)"
      by (simp add: db' written [symmetric] m_def split: fault.splits error_write_fault.splits)
    then have "processed_files db' = processed_files db
          \<or> (\<exists>e m. status e = Error \<and> error_message e = Some m \<and> length m \<le> 200
                \<and> processed_files db' = (processed_files db)(f \<mapsto> e))"
      using entry by blast
    moreover have "\<exists>e. processed_files db' f = Some e \<and> status e = Error
              \<and> error_message e = Some (take 200 (fault_text (save_fault c)))"
      if "\<forall>m. save_fault c \<noteq> ConnectFails m" and "error_fault c = ErrorWriteOk"
    proof -
      from that have "processed_files db' = (processed_files db)(f \<mapsto> entry)"
        by (simp add: db' written [symmetric] m_def split: fault.splits)
      then show ?thesis
        using entry by (simp add: m_def)
    qed
    ultimately show ?thesis
      using False \<open>\<not> ok\<close> by simp
  qed
qed

text \<open>
  A save that fails at its second insert leaves the earlier row of the file in place; the
  same save without a fault replaces it.
\<close>

theorem save_file_data_atomic_witness:
  "\<not> fst (save_file_data (calm\<lparr>save_fault := InsertFails 1 ''duplicate key''\<rparr>) loaded_db
           ''3_2.csv'' [bread_sale, bread_sale])
   \<and> receipts (snd (save_file_data (calm\<lparr>save_fault := InsertFails 1 ''duplicate key''\<rparr>)
                      loaded_db ''3_2.csv'' [bread_sale, bread_sale]))
       = [tagged ''3_2.csv'' milk_sale]
   \<and> fst (save_file_data calm loaded_db ''3_2.csv'' [bread_sale, bread_sale])
   \<and> receipts (snd (save_file_data calm loaded_db ''3_2.csv'' [bread_sale, bread_sale]))
       = [tagged ''3_2.csv'' bread_sale, tagged ''3_2.csv'' bread_sale]"
  using
    save_file_data_atomic [OF surjective_pairing,
      of "calm\<lparr>save_fault := InsertFails 1 ''duplicate key''\<rparr>" loaded_db "''3_2.csv''"
         "[bread_sale, bread_sale]"]
    save_file_data_atomic [OF surjective_pairing,
      of calm loaded_db "''3_2.csv''" "[bread_sale, bread_sale]"]
  by (simp add: calm_def loaded_db_def tagged_def)

text \<open>
  Claim C3. \<open>is_file_processed\<close> returns true exactly when the query does not fail and the
  ledger has an entry for the file name with status success. An entry with status error
  gives false, and so does every failure of the query.
\<close>

theorem is_file_processed_iff_success:
  "(is_file_processed c db f \<longleftrightarrow>
      \<not> query_fails c \<and> (\<exists>e. processed_files db f = Some e \<and> status e = Success))
   \<and> (\<forall>e. processed_files db f = Some e \<and> status e = Error \<longrightarrow> \<not> is_file_processed c db f)
   \<and> (query_fails c \<longrightarrow> \<not> is_file_processed c db f)"
  by (auto simp: is_file_processed_def split: option.splits)

text \<open>
  The loaded file is processed; it is not when the query fails, nor after a later save of
  it failed and left the error entry.
\<close>

theorem is_file_processed_witness:
  "is_file_processed calm loaded_db ''3_2.csv''
   \<and> \<not> is_file_processed (calm\<lparr>query_fails := True\<rparr>) loaded_db ''3_2.csv''
   \<and> \<not> is_file_processed calm
        (snd (save_file_data (calm\<lparr>save_fault := CommitFails ''connection lost''\<rparr>)
                loaded_db ''3_2.csv'' [bread_sale]))
        ''3_2.csv''"
  using is_file_processed_iff_success [of calm loaded_db "''3_2.csv''"]
    is_file_processed_iff_success [of "calm\<lparr>query_fails := True\<rparr>" loaded_db "''3_2.csv''"]
    is_file_processed_iff_success [of calm
      "snd (save_file_data (calm\<lparr>save_fault := CommitFails ''connection lost''\<rparr>)
              loaded_db ''3_2.csv'' [bread_sale])" "''3_2.csv''"]
  by (simp add: calm_def loaded_db_def save_file_data_result upsert_error_def)

section \<open>The coordinator: one file\<close>

lemma example_path_parts:
  "name_of example_path = ''3_2.csv''"
  "parent_name example_path = ''2024-03-10''"
  "extract_store_cash_from_filename example_path = Some (3, 2)"
  "lower (suffix_of example_path) = ''.csv''"
  by code_simp+


lemma round2_examples: "round2 (7 / 2) = 7 / 2" "round2 0 = 0"
  by (simp_all add: round2_def Let_def)

lemma example_clean:
  "clean_rows 3 2 \<lparr>year = 2024, month = 3, day = 10\<rparr> (rows example_frame) = [bread_sale]"
  by (simp add: clean_rows_def example_frame_def dropna_def fillna_def convert_types_def keep_correct_def
      finish_row_def cell_at_def bread_row_def bread_sale_def coerce_amount_def coerce_money_def
      to_numeric_def astype_int_def round2_examples)

lemma example_read: "read_and_prepare_data example_world example_path = Some [bread_sale]"
  by (simp add: read_and_prepare_data_def example_path_parts strptime_ymd_examples example_clean
      required_columns_def)
     (simp add: example_world_def example_frame_def required_columns_def example_clean [unfolded example_frame_def, simplified])

lemma process_file_skip:
  "is_file_processed (conditions w p) (store l) (name_of p) \<Longrightarrow> process_file w p l = (True, l)"
  by (simp add: process_file_def)

lemma process_file_rejected:
  "\<not> is_file_processed (conditions w p) (store l) (name_of p) \<Longrightarrow>
   \<not> validate_csv_file w p \<or> read_and_prepare_data w p = None \<or> read_and_prepare_data w p = Some [] \<Longrightarrow>
   process_file w p l = (False, l)"
  by (auto simp: process_file_def)

lemma process_file_saved:
  "\<not> is_file_processed (conditions w p) (store l) (name_of p) \<Longrightarrow>
   validate_csv_file w p \<Longrightarrow> read_and_prepare_data w p = Some df \<Longrightarrow> df \<noteq> [] \<Longrightarrow>
   save_file_data (conditions w p) (store l) (name_of p) df = (ok, db') \<Longrightarrow>
   process_file w p l =
     (if ok then (True, l\<lparr>store := db', processed_count := processed_count l + 1,
                           total_records := total_records l + length df\<rparr>)
      else (False, l\<lparr>store := db', error_count := error_count l + 1\<rparr>))"
  by (simp add: process_file_def)

text \<open>
  Claim C1, as amended. When the ledger entry of the file has status success and the
  processed-file query does not fail, \<open>process_file\<close> returns true and leaves the loader
  as it was: its database (the rows of the file and the ledger entry among it) and its
  counters. The world is arbitrary, so the result does not depend on the size or the
  content of the file.
\<close>

theorem process_file_skips_processed:
  assumes "processed_files (store l) (name_of p) = Some e" and "status e = Success"
    and "\<not> query_fails (conditions w p)"
  shows "process_file w p l = (True, l)
     \<and> (\<forall>w'. conditions w' p = conditions w p \<longrightarrow> process_file w' p l = (True, l))"
  using assms by (auto intro!: process_file_skip simp: is_file_processed_def)

theorem process_file_skips_processed_witness:
  "process_file example_world example_path (new_loader loaded_db) = (True, new_loader loaded_db)
   \<and> process_file no_price_world example_path (new_loader loaded_db) = (True, new_loader loaded_db)"
proof -
  have "processed_files (store (new_loader loaded_db)) (name_of example_path) =
      Some \<lparr>records_count = Some 1, status = Success, error_message = None, processed_at = 5\<rparr>"
    by (simp add: example_path_parts new_loader_def loaded_db_def)
  moreover have "\<not> query_fails (conditions example_world example_path)"
    by (simp add: example_world_def calm_def)
  moreover have "conditions no_price_world example_path = conditions example_world example_path"
    by (simp add: no_price_world_def)
  ultimately show ?thesis
    using process_file_skips_processed [where l = "new_loader loaded_db" and p = example_path
        and w = example_world]
    by simp
qed

text \<open>
  When the query fails, the file counts as not processed. Here the ledger entry of
  \<open>3_2.csv\<close> has status success and the database holds one row of it; the file on disk
  now holds another row. The query fails, the save that follows does not, and the row in
  the database is replaced.
\<close>

lemma flaky_run:
  "process_file flaky_world example_path (new_loader loaded_db) =
     (True, \<lparr>store = \<lparr>receipts = [tagged ''3_2.csv'' bread_sale],
                      processed_files = [''3_2.csv'' \<mapsto> \<lparr>records_count = Some 1, status = Success,
                         error_message = None, processed_at = 7\<rparr>]\<rparr>,
             processed_count = 1, error_count = 0, total_records = 1\<rparr>)"
proof -
  have c: "conditions flaky_world example_path = calm\<lparr>query_fails := True\<rparr>"
    by (simp add: flaky_world_def)
  have v: "validate_csv_file flaky_world example_path"
    by (simp add: validate_csv_file_def example_path_parts flaky_world_def example_world_def)
  have r: "read_and_prepare_data flaky_world example_path = Some [bread_sale]"
    using example_read
    by (simp add: read_and_prepare_data_def flaky_world_def example_world_def example_path_parts
        strptime_ymd_examples)
  have q: "\<not> is_file_processed (conditions flaky_world example_path) (store (new_loader loaded_db)) (name_of example_path)"
    by (simp add: c is_file_processed_def)
  have s: "save_file_data (conditions flaky_world example_path) (store (new_loader loaded_db)) (name_of example_path) [bread_sale]
     = (True, \<lparr>receipts = [tagged ''3_2.csv'' bread_sale],
                      processed_files = [''3_2.csv'' \<mapsto> \<lparr>records_count = Some 1, status = Success,
                         error_message = None, processed_at = 7\<rparr>]\<rparr>)"
    by (simp add: c save_file_data_result calm_def new_loader_def loaded_db_def example_path_parts
        delete_receipts_def tagged_def upsert_success_def)
  show ?thesis
    using process_file_saved [OF q v r _ s] by (simp add: new_loader_def)
qed

text \<open>
  Claim C1 as stated fails: a file whose ledger entry has status success is read and
  written again when the processed-file query fails.
\<close>

theorem process_file_success_entry_reprocessed:
  "map_option status (processed_files (store (new_loader loaded_db)) (name_of example_path)) = Some Success
   \<and> receipts (store (new_loader loaded_db)) = [tagged ''3_2.csv'' milk_sale]
   \<and> receipts (store (snd (process_file flaky_world example_path (new_loader loaded_db)))) = [tagged ''3_2.csv'' bread_sale]
   \<and> process_file flaky_world example_path (new_loader loaded_db) \<noteq> (True, new_loader loaded_db)"
  by (simp add: flaky_run) (simp add: new_loader_def loaded_db_def example_path_parts)

lemma stray_path_parts:
  "name_of stray_path = ''notes.csv''"
  "extract_store_cash_from_filename stray_path = None"
  by code_simp+

text \<open>
  Claim C4, on the code. A file that the validator rejects (here: a name that is not of
  the form \<open>3_2.csv\<close>), a file that the transformer rejects (here: no \<open>price\<close> column) and
  a file of which no row is left (here: one row without item) make \<open>process_file\<close> return
  false without a call of the gateway, and the loader is left as it was: the error
  counter is still 0. The claim says it is incremented.
\<close>

theorem process_file_rejected_not_counted:
  "process_file example_world stray_path (new_loader empty_db) = (False, new_loader empty_db)
   \<and> process_file no_price_world example_path (new_loader empty_db) = (False, new_loader empty_db)
   \<and> process_file no_item_world example_path (new_loader empty_db) = (False, new_loader empty_db)
   \<and> error_count (new_loader empty_db) = 0"
proof -
  have "\<not> validate_csv_file example_world stray_path"
    by (simp add: validate_csv_file_def stray_path_parts)
  moreover have "read_and_prepare_data no_price_world example_path = None"
    by (simp add: read_and_prepare_data_def example_path_parts strptime_ymd_examples
        no_price_world_def example_world_def required_columns_def)
  moreover have "read_and_prepare_data no_item_world example_path = Some []"
    by (simp add: read_and_prepare_data_def example_path_parts strptime_ymd_examples
        no_item_world_def example_world_def required_columns_def clean_rows_def dropna_def
        fillna_def convert_types_def keep_correct_def cell_at_def bread_row_def)
  moreover have "\<not> is_file_processed c (store (new_loader empty_db)) f" for c f
    by (simp add: is_file_processed_def new_loader_def empty_db_def)
  ultimately show ?thesis
    by (simp add: process_file_rejected) (simp add: new_loader_def)
qed

section \<open>The transformer: which rows survive\<close>








section \<open>The coordinator: counters and flags\<close>

text \<open>
  Claim C9. \<open>main\<close> never reads \<open>args.force\<close>: a run with the flag and a run without
  it, on the same files, database and other arguments, leave the same database and the
  same counters.
\<close>

theorem loader_force_is_noop:
  "loader_main w (a\<lparr>arg_force := True\<rparr>) db = loader_main w (a\<lparr>arg_force := False\<rparr>) db"
  by (simp add: loader_main_def Let_def)

lemma process_file_counts:
  assumes "process_file w p l = (ok, l')"
  shows "processed_count l' = processed_count l +
           (if ok \<and> \<not> is_file_processed (conditions w p) (store l) (name_of p) then 1 else 0)"
    and "total_records l' = total_records l +
           (if ok \<and> \<not> is_file_processed (conditions w p) (store l) (name_of p)
            then length (the (read_and_prepare_data w p)) else 0)"
    and "error_count l \<le> error_count l'"
    and "error_count l' = error_count l +
           (if \<not> ok \<and> \<not> is_file_processed (conditions w p) (store l) (name_of p)
               \<and> validate_csv_file w p \<and> read_and_prepare_data w p \<noteq> None
               \<and> read_and_prepare_data w p \<noteq> Some []
            then 1 else 0)"
  using assms
  by (auto simp: process_file_def Let_def split: if_splits option.splits prod.splits)

lemma fold_process_file_mono:
  "processed_count l \<le> processed_count (fold (\<lambda>f st. snd (process_file w f st)) files l)
   \<and> total_records l \<le> total_records (fold (\<lambda>f st. snd (process_file w f st)) files l)
   \<and> error_count l \<le> error_count (fold (\<lambda>f st. snd (process_file w f st)) files l)"
proof (induction files arbitrary: l)
  case Nil
  then show ?case by simp
next
  case (Cons f files)
  have step: "processed_count l \<le> processed_count (snd (process_file w f l))"
    "total_records l \<le> total_records (snd (process_file w f l))"
    "error_count l \<le> error_count (snd (process_file w f l))"
    using process_file_counts [OF surjective_pairing, where w = w and p = f and l = l] by simp_all
  show ?case
    using Cons.IH [of "snd (process_file w f l)"] step by simp
qed

text \<open>
  Claim C10. When \<open>process_file\<close> skips a file it returns true and none of the three
  counters changes. In every call the counter of processed files grows by one and the
  counter of records by the number of rows exactly when the file was persisted in this
  call, and not at all otherwise; the error counter grows by one exactly when the gateway
  was called in this call and returned false. A new loader starts with all three at 0,
  and \<open>process_all_files\<close>, when it finds files, reports the counters of the loader
  after the run, which are never below those it started with.
\<close>

theorem process_file_skip_keeps_counters:
  assumes "process_file w p l = (ok, l')"
  shows "(is_file_processed (conditions w p) (store l) (name_of p) \<longrightarrow>
            ok \<and> processed_count l' = processed_count l \<and> error_count l' = error_count l
               \<and> total_records l' = total_records l)
     \<and> processed_count l' = processed_count l +
           (if ok \<and> \<not> is_file_processed (conditions w p) (store l) (name_of p) then 1 else 0)
     \<and> total_records l' = total_records l +
           (if ok \<and> \<not> is_file_processed (conditions w p) (store l) (name_of p)
            then length (the (read_and_prepare_data w p)) else 0)
     \<and> error_count l' = error_count l +
           (if \<not> ok \<and> \<not> is_file_processed (conditions w p) (store l) (name_of p)
               \<and> validate_csv_file w p \<and> read_and_prepare_data w p \<noteq> None
               \<and> read_and_prepare_data w p \<noteq> Some []
            then 1 else 0)
     \<and> processed_count (new_loader db) = 0 \<and> error_count (new_loader db) = 0
     \<and> total_records (new_loader db) = 0
     \<and> (find_csv_files (tree w) \<noteq> [] \<longrightarrow>
          fst (process_all_files w d l) =
            \<lparr>processed = processed_count (snd (process_all_files w d l)),
             errors = error_count (snd (process_all_files w d l)),
             total = total_records (snd (process_all_files w d l))\<rparr>
        \<and> processed_count l \<le> processed_count (snd (process_all_files w d l))
        \<and> total_records l \<le> total_records (snd (process_all_files w d l)))"
proof -
  have skip: "ok \<and> processed_count l' = processed_count l \<and> error_count l' = error_count l
               \<and> total_records l' = total_records l"
    if "is_file_processed (conditions w p) (store l) (name_of p)"
    using assms process_file_skip [OF that] by simp
  have all: "fst (process_all_files w d l) =
            \<lparr>processed = processed_count (snd (process_all_files w d l)),
             errors = error_count (snd (process_all_files w d l)),
             total = total_records (snd (process_all_files w d l))\<rparr>
        \<and> processed_count l \<le> processed_count (snd (process_all_files w d l))
        \<and> total_records l \<le> total_records (snd (process_all_files w d l))"
    if "find_csv_files (tree w) \<noteq> []"
    using that fold_process_file_mono [where l = l and w = w]
    by (simp add: process_all_files_def Let_def)
  show ?thesis
    using skip all process_file_counts(1,2,4) [OF assms]
    by (simp add: new_loader_def)
qed

theorem process_file_skip_keeps_counters_witness:
  "fst (process_file example_world example_path (new_loader loaded_db))
   \<and> processed_count (snd (process_file example_world example_path (new_loader loaded_db))) = 0
   \<and> error_count (snd (process_file example_world example_path (new_loader loaded_db))) = 0
   \<and> total_records (snd (process_file example_world example_path (new_loader loaded_db))) = 0"
proof -
  have "is_file_processed (conditions example_world example_path) (store (new_loader loaded_db))
      (name_of example_path)"
    by (simp add: is_file_processed_def example_world_def calm_def new_loader_def loaded_db_def
        example_path_parts)
  then show ?thesis
    using process_file_skip_keeps_counters [OF surjective_pairing,
        where w = example_world and p = example_path and l = "new_loader loaded_db"
          and db = empty_db and d = None]
    by (simp add: new_loader_def)
qed

section \<open>The generator: skipped days and daily files\<close>

lemma randint_ok:
  assumes "a \<le> b"
  shows "\<exists>v ch'. randint a b ch = Inr (v, ch') \<and> a \<le> v \<and> v \<le> b"
proof -
  define n where "n = nat (b - a + 1)"
  have "0 < n" and n: "int n = b - a + 1"
    using assms by (simp_all add: n_def)
  then have "draws ch 0 mod n < n" by simp
  then have "int (draws ch 0 mod n) < b - a + 1"
    using n by linarith
  then show ?thesis
    using assms by (simp add: randint_def next_draw_def n_def)
qed

lemma randint_bounds:
  "randint a b ch = Inr (v, ch') \<Longrightarrow> a \<le> v \<and> v \<le> b"
  using randint_ok [of a b ch] by (cases "a \<le> b") (auto simp: randint_def)

lemma choice_ok:
  "xs \<noteq> [] \<Longrightarrow> \<exists>x ch'. choice xs ch = Inr (x, ch') \<and> x \<in> set xs"
  by (simp add: choice_def next_draw_def)

lemma receipt_items_ok:
  assumes "n = 0 \<or> (CATEGORIES cfg \<noteq> []
            \<and> list_all (\<lambda>cat. case PRODUCTS_BY_CATEGORY cfg cat of
                                  None \<Rightarrow> False
                                | Some items \<Rightarrow> items \<noteq> [])
                 (CATEGORIES cfg))"
  shows "\<exists>lines ch'. receipt_items cfg doc sid cid rd n ch = Inr (lines, ch')"
  using assms
proof (induction n arbitrary: ch)
  case 0
  then show ?case by simp
next
  case (Suc n)
  then have cats: "CATEGORIES cfg \<noteq> []"
    and prods: "list_all (\<lambda>cat. case PRODUCTS_BY_CATEGORY cfg cat of
                                  None \<Rightarrow> False
                                | Some items \<Rightarrow> items \<noteq> []) (CATEGORIES cfg)"
    by simp_all
  obtain cat ch1 where c: "choice (CATEGORIES cfg) ch = Inr (cat, ch1)" "cat \<in> set (CATEGORIES cfg)"
    using choice_ok [OF cats] by blast
  obtain items where items: "PRODUCTS_BY_CATEGORY cfg cat = Some items" "items \<noteq> []"
    using prods c(2) by (auto simp: list_all_iff split: option.splits)
  obtain item_data ch2 where s: "select_item_from_category cfg cat ch1 = Inr (item_data, ch2)"
    using choice_ok [OF items(2), of ch1] by (auto simp: select_item_from_category_def items(1))
  obtain p ch3 where u: "uniform (fst (price_range item_data)) (snd (price_range item_data)) ch2 = (p, ch3)"
    by (cases "uniform (fst (price_range item_data)) (snd (price_range item_data)) ch2")
  obtain amt ch4 where r: "randint 1 5 ch3 = Inr (amt, ch4)"
    using randint_ok [of 1 5 ch3] by auto
  obtain disc ch5 where d: "calculate_discount cfg p ch4 = (disc, ch5)"
    by (cases "calculate_discount cfg p ch4")
  obtain lines ch6 where rest: "receipt_items cfg doc sid cid rd n ch5 = Inr (lines, ch6)"
    using Suc.IH [of ch5] cats prods by blast
  show ?case
    by (simp add: c s u r d rest)
qed

lemma generate_receipt_ok:
  assumes "receipts_possible cfg"
  shows "\<exists>lines ch'. generate_receipt cfg sid cid rd ch = Inr (lines, ch')"
proof -
  obtain doc ch1 where g: "generate_doc_id ch = (doc, ch1)"
    by (cases "generate_doc_id ch")
  obtain num ch2 where r: "randint (ITEMS_PER_RECEIPT_MIN cfg) (ITEMS_PER_RECEIPT_MAX cfg) ch1 = Inr (num, ch2)"
    and b: "num \<le> ITEMS_PER_RECEIPT_MAX cfg"
    using randint_ok [of "ITEMS_PER_RECEIPT_MIN cfg" "ITEMS_PER_RECEIPT_MAX cfg" ch1] assms
    by (auto simp: receipts_possible_def)
  have "nat num = 0 \<or> (CATEGORIES cfg \<noteq> []
            \<and> list_all (\<lambda>cat. case PRODUCTS_BY_CATEGORY cfg cat of
                                  None \<Rightarrow> False
                                | Some items \<Rightarrow> items \<noteq> [])
                 (CATEGORIES cfg))"
    using assms b by (auto simp: receipts_possible_def)
  from receipt_items_ok [OF this] show ?thesis
    by (simp add: generate_receipt_def g r)
qed

lemma cash_receipts_ok:
  assumes "receipts_possible cfg"
  shows "\<exists>lines ch'. cash_receipts cfg sid cid rd n ch = Inr (lines, ch')"
proof (induction n arbitrary: ch)
  case 0
  then show ?case by simp
next
  case (Suc n)
  obtain lines ch1 where g: "generate_receipt cfg sid cid rd ch = Inr (lines, ch1)"
    using generate_receipt_ok [OF assms] by blast
  obtain rest ch2 where r: "cash_receipts cfg sid cid rd n ch1 = Inr (rest, ch2)"
    using Suc.IH by blast
  show ?case by (simp add: g r)
qed

lemma cash_files_ok:
  assumes "receipts_possible cfg" and "20 \<le> RECEIPTS_PER_CASH_PER_DAY cfg"
  shows "\<exists>files ch'. cash_files cfg day_dir d sid cids ch = Inr (files, ch')
     \<and> map w_path files = map (\<lambda>cid. day_dir @ [csv_name sid cid]) cids
     \<and> list_all (\<lambda>f. 20 \<le> w_receipts f \<and> w_receipts f \<le> RECEIPTS_PER_CASH_PER_DAY cfg) files"
proof (induction cids arbitrary: ch)
  case Nil
  then show ?case by simp
next
  case (Cons cid cids)
  obtain num ch1 where r: "randint 20 (RECEIPTS_PER_CASH_PER_DAY cfg) ch = Inr (num, ch1)"
    and b: "20 \<le> num" "num \<le> RECEIPTS_PER_CASH_PER_DAY cfg"
    using randint_ok [OF assms(2), of ch] by blast
  obtain df ch2 where g: "generate_cash_data cfg sid cid d (Some num) ch1 = Inr (df, ch2)"
    using cash_receipts_ok [OF assms(1)] by (fastforce simp: generate_cash_data_def)
  obtain others ch3 where rest: "cash_files cfg day_dir d sid cids ch2 = Inr (others, ch3)"
    "map w_path others = map (\<lambda>cid. day_dir @ [csv_name sid cid]) cids"
    "list_all (\<lambda>f. 20 \<le> w_receipts f \<and> w_receipts f \<le> RECEIPTS_PER_CASH_PER_DAY cfg) others"
    using Cons.IH by blast
  show ?case
    by (simp add: r g rest b)
qed

lemma store_files_ok:
  assumes "receipts_possible cfg" and "20 \<le> RECEIPTS_PER_CASH_PER_DAY cfg"
  shows "\<exists>files ch'. store_files cfg day_dir d sts ch = Inr (files, ch')
     \<and> map w_path files = pair_paths day_dir sts
     \<and> list_all (\<lambda>f. 20 \<le> w_receipts f \<and> w_receipts f \<le> RECEIPTS_PER_CASH_PER_DAY cfg) files"
proof (induction sts arbitrary: ch)
  case Nil
  then show ?case by (simp add: pair_paths_def)
next
  case (Cons st sts)
  obtain sid cids where st: "st = (sid, cids)" by (cases st)
  obtain files ch1 where c: "cash_files cfg day_dir d sid cids ch = Inr (files, ch1)"
    "map w_path files = map (\<lambda>cid. day_dir @ [csv_name sid cid]) cids"
    "list_all (\<lambda>f. 20 \<le> w_receipts f \<and> w_receipts f \<le> RECEIPTS_PER_CASH_PER_DAY cfg) files"
    using cash_files_ok [OF assms] by blast
  obtain others ch2 where rest: "store_files cfg day_dir d sts ch1 = Inr (others, ch2)"
    "map w_path others = pair_paths day_dir sts"
    "list_all (\<lambda>f. 20 \<le> w_receipts f \<and> w_receipts f \<le> RECEIPTS_PER_CASH_PER_DAY cfg) others"
    using Cons.IH by blast
  show ?case
    using c rest by (simp add: st pair_paths_def)
qed

lemma strptime_ymd_january:
  "strptime_ymd ''2024-01-07'' = Some \<lparr>year = 2024, month = 1, day = 7\<rparr>"
  "strptime_ymd ''2024-01-01'' = Some \<lparr>year = 2024, month = 1, day = 1\<rparr>"
  by code_simp+

lemma example_days:
  "weekday saturday = 5"
  "weekday sunday = 6"
  "weekday new_year = 0"
  "strftime_ymd saturday = ''2024-01-06''"
  "strftime_ymd sunday = ''2024-01-07''"
  "strftime_ymd new_year = ''2024-01-01''"
  "strptime_ymd ''2024-01-07'' = Some sunday"
  "strptime_ymd ''2024-01-01'' = Some new_year"
  by (simp_all add: saturday_def sunday_def new_year_def strptime_ymd_january
      weekday_def toordinal_def days_before_year_def days_before_month_def days_in_month_def
      is_leap_def strftime_ymd_def zero_pad_def show_nat.simps digit_char_def)

lemma example_config_ok:
  "receipts_possible example_config" "20 \<le> RECEIPTS_PER_CASH_PER_DAY example_config"
  by (simp_all add: receipts_possible_def example_config_def)

lemma example_config_fields:
  "DATA_DIR example_config = [''data'']"
  "holidays example_config = [''2024-01-01'']"
  "RECEIPTS_PER_CASH_PER_DAY example_config = 50"
  "weekly_off_day example_config = 5"
  "receipts_per_file_min example_config = 30"
  by (simp_all add: example_config_def)

lemma two_stores_paths: "length (pair_paths dir two_stores) = 3"
  by (simp add: pair_paths_def two_stores_def)

lemma generate_daily_files_skip:
  "target_day ch t = Some d \<Longrightarrow> \<not> force \<Longrightarrow>
   weekday d = 6 \<or> strftime_ymd d \<in> set (holidays cfg) \<Longrightarrow>
   generate_daily_files cfg sts t force ch = Inr (0, [], ch)"
  by (auto simp: generate_daily_files_def)

lemma generate_daily_files_ok:
  assumes "target_day ch t = Some d"
    and "force \<or> (weekday d \<noteq> 6 \<and> strftime_ymd d \<notin> set (holidays cfg))"
    and "receipts_possible cfg" and "20 \<le> RECEIPTS_PER_CASH_PER_DAY cfg"
  shows "\<exists>files ch'. generate_daily_files cfg sts t force ch = Inr (length files, files, ch')
     \<and> map w_path files = pair_paths (DATA_DIR cfg @ [strftime_ymd d]) sts
     \<and> list_all (\<lambda>f. 20 \<le> w_receipts f \<and> w_receipts f \<le> RECEIPTS_PER_CASH_PER_DAY cfg) files"
proof -
  obtain files ch' where
    "store_files cfg (DATA_DIR cfg @ [strftime_ymd d]) d sts ch = Inr (files, ch')"
    "map w_path files = pair_paths (DATA_DIR cfg @ [strftime_ymd d]) sts"
    "list_all (\<lambda>f. 20 \<le> w_receipts f \<and> w_receipts f \<le> RECEIPTS_PER_CASH_PER_DAY cfg) files"
    using store_files_ok [OF assms(3,4)] by blast
  then show ?thesis
    using assms(1,2) by (auto simp: generate_daily_files_def)
qed

lemma generate_daily_files_count:
  assumes "generate_daily_files cfg sts t force ch = Inr (length files, files, ch')"
    and "map w_path files = pair_paths dir sts"
  shows "map_sum id fst (generate_daily_files cfg sts t force ch) = Inr (length (pair_paths dir sts))"
  using assms(1) arg_cong [OF assms(2), of length] by simp

text \<open>
  Claim C7, as amended. Without the force flag \<open>generate_daily_files\<close> returns 0 and
  writes no file when the day is a Sunday (\<open>weekday() == 6\<close>, a constant of the code) or
  is listed in the configured holidays. With the force flag, and a configuration under
  which no draw raises, it writes the files of every store and cash register on any day.
\<close>

theorem generate_daily_files_skips_sunday_and_holidays:
  assumes "target_day ch t = Some d"
  shows "(\<not> force \<and> (weekday d = 6 \<or> strftime_ymd d \<in> set (holidays cfg)) \<longrightarrow>
            generate_daily_files cfg sts t force ch = Inr (0, [], ch))
     \<and> (receipts_possible cfg \<and> 20 \<le> RECEIPTS_PER_CASH_PER_DAY cfg \<longrightarrow>
          (\<exists>files ch'. generate_daily_files cfg sts t True ch = Inr (length files, files, ch')
             \<and> map w_path files = pair_paths (DATA_DIR cfg @ [strftime_ymd d]) sts))"
  using generate_daily_files_skip [OF assms, of force cfg sts]
    generate_daily_files_ok [OF assms, of True cfg sts]
  by blast

theorem generate_daily_files_skips_sunday_and_holidays_witness:
  "generate_daily_files example_config two_stores (DateText ''2024-01-07'') False still_chance =
     Inr (0, [], still_chance)
   \<and> generate_daily_files example_config two_stores (DateText ''2024-01-01'') False still_chance =
     Inr (0, [], still_chance)
   \<and> map_sum id fst
       (generate_daily_files example_config two_stores (DateText ''2024-01-07'') True still_chance) =
     Inr 3"
proof -
  have sun: "target_day still_chance (DateText ''2024-01-07'') = Some sunday"
    and hol: "target_day still_chance (DateText ''2024-01-01'') = Some new_year"
    by (simp_all add: target_day_def example_days)
  note s = generate_daily_files_skips_sunday_and_holidays [OF sun, of False example_config two_stores]
  note h = generate_daily_files_skips_sunday_and_holidays [OF hol, of False example_config two_stores]
  from s have 1: "generate_daily_files example_config two_stores (DateText ''2024-01-07'') False
      still_chance = Inr (0, [], still_chance)"
    by (simp add: example_days)
  from h have 2: "generate_daily_files example_config two_stores (DateText ''2024-01-01'') False
      still_chance = Inr (0, [], still_chance)"
    by (simp add: example_days example_config_fields)
  from s example_config_ok obtain files ch' where
    "generate_daily_files example_config two_stores (DateText ''2024-01-07'') True still_chance =
       Inr (length files, files, ch')"
    "map w_path files = pair_paths (DATA_DIR example_config @ [strftime_ymd sunday]) two_stores"
    by blast
  from generate_daily_files_count [OF this] have 3: "map_sum id fst
       (generate_daily_files example_config two_stores (DateText ''2024-01-07'') True still_chance) =
     Inr 3"
    by (simp add: two_stores_paths)
  from 1 2 3 show ?thesis by simp
qed

text \<open>
  Claim C7 as stated fails: no configured weekly off-day is read. With Saturday
  configured as the off-day, a Saturday that is no holiday gets its three files without
  the force flag.
\<close>

theorem generate_daily_files_ignores_configured_off_day:
  "weekday saturday = weekly_off_day example_config
   \<and> map_sum id fst
       (generate_daily_files example_config two_stores (DateValue saturday) False still_chance) =
     Inr 3"
proof -
  have "target_day still_chance (DateValue saturday) = Some saturday"
    by (simp add: target_day_def)
  moreover have "weekday saturday \<noteq> 6 \<and> strftime_ymd saturday \<notin> set (holidays example_config)"
    by (simp add: example_days example_config_fields)
  ultimately obtain files ch' where
    "generate_daily_files example_config two_stores (DateValue saturday) False still_chance =
       Inr (length files, files, ch')"
    "map w_path files = pair_paths (DATA_DIR example_config @ [strftime_ymd saturday]) two_stores"
    using generate_daily_files_ok [OF _ _ example_config_ok, of still_chance "DateValue saturday"
        saturday False two_stores]
    by blast
  from generate_daily_files_count [OF this] show ?thesis
    by (simp add: two_stores_paths example_days example_config_fields)
qed












lemma init_stores_shape:
  "init_stores cfg ids ch = Inr (sts, ch') \<Longrightarrow>
   map fst sts = ids \<and> list_all (\<lambda>(sid, cids). distinct cids) sts"
proof (induction ids arbitrary: ch sts)
  case Nil
  then show ?case by simp
next
  case (Cons i ids)
  from Cons.prems obtain n ch1 others where
    "init_stores cfg ids ch1 = Inr (others, ch')" and sts: "sts = (i, [1..<nat (n + 1)]) # others"
    by (auto split: sum.splits)
  from Cons.IH [OF this(1)] show ?case
    by (simp add: sts)
qed

lemma initialize_stores_distinct:
  "initialize_stores cfg num_stores ch = Inr (sts, ch') \<Longrightarrow>
   distinct (map fst sts) \<and> list_all (\<lambda>(sid, cids). distinct cids) sts"
  using init_stores_shape [of cfg "[1..<nat (num_stores + 1)]" ch sts ch']
  by (simp add: initialize_stores_def)

text \<open>Every value of the range is drawn by some chance.\<close>

lemma randint_any:
  "a \<le> v \<Longrightarrow> v \<le> b \<Longrightarrow> fst (projr (randint a b (ch\<lparr>draws := (\<lambda>i. nat (v - a))\<rparr>))) = v"
  by (simp add: randint_def next_draw_def)

text \<open>With an upper bound below 20 the first cash register raises \<open>ValueError\<close>.\<close>

lemma cash_files_ValueError:
  "RECEIPTS_PER_CASH_PER_DAY cfg < 20 \<Longrightarrow>
   cash_files cfg day_dir d sid (cid # cids) ch = Inl ValueError"
  by (simp add: randint_def)





end
